theory Spec2Isabelle
  imports Main
begin

unbundle bit_operations_syntax

section \<open>Python values used by the core\<close>

text \<open>
  The identifiers of a session (\<^verbatim>\<open>_project\<close>, \<^verbatim>\<open>_binary\<close>, \<^verbatim>\<open>_snapshot\<close>) are
  either \<^verbatim>\<open>None\<close> or a \<^verbatim>\<open>str\<close>: a \<open>string option\<close>. Python tests them by truth value:
  \<^verbatim>\<open>None\<close> and the empty string are false, every other string is true.
  Strings of the core are ASCII strings; text outside ASCII is not modelled here.
\<close>

definition truthy :: "string option \<Rightarrow> bool" where
  "truthy v = (case v of None \<Rightarrow> False | Some s \<Rightarrow> s \<noteq> [])"

text \<open>\<^verbatim>\<open>x or None\<close>\<close>

definition or_None :: "string option \<Rightarrow> string option" where
  "or_None v = (if truthy v then v else None)"

text \<open>\<^verbatim>\<open>x or "0"\<close>\<close>

definition or_zero :: "string option \<Rightarrow> string" where
  "or_zero v = (case v of None \<Rightarrow> ''0'' | Some s \<Rightarrow> if s = [] then ''0'' else s)"

subsection \<open>\<^verbatim>\<open>str(int)\<close> and \<^verbatim>\<open>int(str)\<close>\<close>

text \<open>
  \<^verbatim>\<open>str(n)\<close> of an integer is its decimal numeral, with a leading minus sign when negative.
  \<^verbatim>\<open>int(s)\<close> of an ASCII string drops the white space around it (the characters 9 to 13
  and 32), reads an optional sign and then decimal digits, where single underscores may
  stand between digits; everything else raises \<^verbatim>\<open>ValueError\<close>. (The limit that recent
  interpreters put on the number of digits of a conversion is not modelled.)
\<close>

definition digit_char :: "nat \<Rightarrow> char" where
  "digit_char d = char_of (48 + d)"

fun str_of_nat :: "nat \<Rightarrow> string" where
  "str_of_nat n = (if n < 10 then [digit_char n] else str_of_nat (n div 10) @ [digit_char (n mod 10)])"

declare str_of_nat.simps [simp del]

definition str_of_int :: "int \<Rightarrow> string" where
  "str_of_int i = (if i < 0 then CHR ''-'' # str_of_nat (nat (- i)) else str_of_nat (nat i))"

definition is_digit :: "char \<Rightarrow> bool" where
  "is_digit c = (48 \<le> (of_char c :: nat) \<and> (of_char c :: nat) \<le> 57)"

definition digit_val :: "char \<Rightarrow> nat" where
  "digit_val c = of_char c - 48"

definition is_py_space :: "char \<Rightarrow> bool" where
  "is_py_space c = ((9 \<le> (of_char c :: nat) \<and> (of_char c :: nat) \<le> 13) \<or> (of_char c :: nat) = 32)"

definition py_strip :: "string \<Rightarrow> string" where
  "py_strip s = rev (dropWhile is_py_space (rev (dropWhile is_py_space s)))"

text \<open>
  The digits after the sign, read from the left with the value so far:
  a digit, then any number of groups of an optional underscore and a digit.
\<close>

fun read_digits :: "nat \<Rightarrow> string \<Rightarrow> nat option" where
  "read_digits acc [] = Some acc"
| "read_digits acc [c] = (if is_digit c then Some (10 * acc + digit_val c) else None)"
| "read_digits acc (c # d # cs) =
     (if is_digit c then read_digits (10 * acc + digit_val c) (d # cs)
      else if c = CHR ''_'' \<and> is_digit d then read_digits acc (d # cs)
      else None)"

definition read_nat :: "string \<Rightarrow> nat option" where
  "read_nat s = (case s of [] \<Rightarrow> None | c # cs \<Rightarrow> if is_digit c then read_digits 0 s else None)"

definition py_int :: "string \<Rightarrow> int option" where
  "py_int s =
     (case py_strip s of
        [] \<Rightarrow> None
      | c # cs \<Rightarrow>
          if c = CHR ''-'' then map_option (\<lambda>n. - int n) (read_nat cs)
          else if c = CHR ''+'' then map_option int (read_nat cs)
          else map_option int (read_nat (c # cs)))"

text \<open>The value of a string of digits, continuing from \<open>acc\<close>.\<close>

definition dec_val :: "nat \<Rightarrow> string \<Rightarrow> nat" where
  "dec_val acc s = foldl (\<lambda>a c. 10 * a + digit_val c) acc s"

section \<open>The core module (\<^verbatim>\<open>core.py\<close>)\<close>

subsection \<open>State\<close>

text \<open>
  Packets handed to the network module. The identifiers of \<^verbatim>\<open>JoinSession\<close> and of
  the query are the values of the core's fields when the packet is built.
\<close>

datatype packet =
    JoinSession string "string option" "string option" "string option" int string int int
  | LeaveSession string string
  | ListSnapshots_Query "string option" "string option"

text \<open>
  A log line: the logger's method, the message as written in the source, and the values
  formatted into it (kept as values).
\<close>

datatype level = Trace | Debug | Info | Warning

datatype log_arg = AStr "string option" | AInt int

type_synonym log_entry = "level \<times> string \<times> log_arg list"

text \<open>
  A local type as \<^verbatim>\<open>ImportLocalType\<close> and \<^verbatim>\<open>LocalType(...)\<close> build it. Text is a list of code
  points, bytes are a list of \<open>char\<close>; the parsed list is only handed on by this code.
\<close>

type_synonym ustr = "nat list"

type_synonym bytes = "char list"

record LocalType =
  lt_name :: ustr
  parsedList :: "ustr list"
  TypeFields :: bytes
  lt_cmt :: bytes
  fieldcmts :: bytes

text \<open>An entry of a \<^verbatim>\<open>ListSnapshots.Reply\<close>; the code reads its name only.\<close>

record snapshot_entry =
  snap_name :: string

text \<open>
  The fields of \<^verbatim>\<open>Core\<close>, followed by what the core reaches through the plugin and the
  host: the netnode \<^verbatim>\<open>"$ idarling"\<close> (a hash from keys to strings), the packets handed to
  \<^verbatim>\<open>network.send_packet\<close>, the log, the user's configuration, the cursor address and the
  host's local types. The netnode is always opened with \<^verbatim>\<open>create=True\<close>, so a netnode
  that does not exist and one without keys read the same; \<^verbatim>\<open>kill\<close> leaves the empty hash.

  The record describes a core after \<^verbatim>\<open>_install\<close>, where the four hook objects exist;
  each of \<open>idb_hooks\<close>, \<open>idp_hooks\<close>, \<open>hxe_hooks\<close>, \<open>ui_hooks\<close> says whether that object is
  hooked into the host. \<open>ticks\<close> is the attribute of that name, absent until it is assigned.
  The dictionary \<^verbatim>\<open>delete_candidates\<close> is not read or written by the methods below and
  is left out. \<open>deferred\<close> says whether \<^verbatim>\<open>send_packet\<close> returns a deferred for a query (it returns
  nothing without a connection), \<open>callbacks\<close> counts the deferreds that carry
  \<^verbatim>\<open>snapshots_listed\<close> and have not been answered.
\<close>

record core =
  host_id :: string
  project :: "string option"
  binary :: "string option"
  snapshot :: "string option"
  tick :: int
  ticks :: "int option"
  users :: "string \<rightharpoonup> int \<times> int"
  session_joined :: bool
  idb_hooks :: bool
  idp_hooks :: bool
  hxe_hooks :: bool
  ui_hooks :: bool
  hooked :: bool
  local_type_map :: "nat \<rightharpoonup> LocalType"
  netnode :: "string \<rightharpoonup> string"
  sent :: "packet list"
  deferred :: bool
  callbacks :: nat
  logged :: "log_entry list"
  cfg_name :: string
  cfg_color :: int
  screen_ea :: int
  ordinal_count :: nat
  import_local_type :: "nat \<Rightarrow> LocalType"

text \<open>\<^verbatim>\<open>Core.__init__\<close>, then \<^verbatim>\<open>_install\<close>: the core's own fields in a given environment.\<close>

definition Core_init :: "core \<Rightarrow> core" where
  "Core_init env =
     env\<lparr>project := None, binary := None, snapshot := None, tick := - 1, ticks := None,
         users := Map.empty, session_joined := False,
         idb_hooks := False, idp_hooks := False, hxe_hooks := False, ui_hooks := False,
         hooked := False, local_type_map := Map.empty, callbacks := 0\<rparr>"

definition log_msg :: "level \<Rightarrow> string \<Rightarrow> log_arg list \<Rightarrow> core \<Rightarrow> core" where
  "log_msg l m args w = w\<lparr>logged := logged w @ [(l, m, args)]\<rparr>"

definition send_packet :: "packet \<Rightarrow> core \<Rightarrow> core" where
  "send_packet p w = w\<lparr>sent := sent w @ [p]\<rparr>"

subsection \<open>Hooks\<close>

definition update_local_types_map :: "core \<Rightarrow> core" where
  "update_local_types_map w =
     w\<lparr>local_type_map :=
         foldl (\<lambda>m i. m(i \<mapsto> import_local_type w i)) (local_type_map w) [1 ..< ordinal_count w + 1]\<rparr>"

definition hook_all :: "core \<Rightarrow> core" where
  "hook_all w =
     (if hooked w then w
      else update_local_types_map
             ((log_msg Debug ''Installing hooks'' [] w)
                \<lparr>idb_hooks := True, idp_hooks := True, hxe_hooks := True, ui_hooks := True,
                 hooked := True\<rparr>))"

definition unhook_all :: "core \<Rightarrow> core" where
  "unhook_all w =
     (if \<not> hooked w then w
      else (log_msg Debug ''Uninstalling hooks'' [] w)
             \<lparr>idb_hooks := False, idp_hooks := False, hxe_hooks := False, ui_hooks := False,
              hooked := False\<rparr>)"

subsection \<open>The netnode\<close>

definition hashset_buf :: "string \<Rightarrow> string \<Rightarrow> core \<Rightarrow> core" where
  "hashset_buf k v w = w\<lparr>netnode := (netnode w)(k \<mapsto> v)\<rparr>"

definition save_netnode :: "core \<Rightarrow> core" where
  "save_netnode w =
     (let w1 = (if truthy (project w) then hashset_buf ''project'' (the (project w)) w else w);
          w2 = (if truthy (binary w1) then hashset_buf ''binary'' (the (binary w1)) w1 else w1);
          w3 = (if truthy (snapshot w2) then hashset_buf ''snapshot'' (the (snapshot w2)) w2 else w2);
          w4 = (if tick w3 \<noteq> - 1 then hashset_buf ''tick'' (str_of_int (tick w3)) w3 else w3)
      in log_msg Debug ''Saved netnode: project=%s, binary=%s, snapshot=%s, tick=%d''
           [AStr (project w4), AStr (binary w4), AStr (snapshot w4), AInt (tick w4)] w4)"

text \<open>The property setters: assign, then save.\<close>

definition set_project :: "string option \<Rightarrow> core \<Rightarrow> core" where
  "set_project v w = save_netnode (w\<lparr>project := v\<rparr>)"

definition set_binary :: "string option \<Rightarrow> core \<Rightarrow> core" where
  "set_binary v w = save_netnode (w\<lparr>binary := v\<rparr>)"

definition set_snapshot :: "string option \<Rightarrow> core \<Rightarrow> core" where
  "set_snapshot v w = save_netnode (w\<lparr>snapshot := v\<rparr>)"

definition set_tick :: "int \<Rightarrow> core \<Rightarrow> core" where
  "set_tick v w = save_netnode (w\<lparr>tick := v\<rparr>)"

text \<open>
  What a call leaves behind: the state when it returns, or the exception and the state
  at the moment it was raised (the assignments made before stay).
\<close>

datatype py_error =
    ValueError | TypeError | AttributeError | UnicodeError | NotImplementedError
  | Exception string

datatype outcome = Returned core | Raised py_error core

fun state_of :: "outcome \<Rightarrow> core" where
  "state_of (Returned w) = w"
| "state_of (Raised e w) = w"

definition load_netnode_old :: "core \<Rightarrow> outcome" where
  "load_netnode_old w =
     (let w1 = log_msg Warning ''Old idb detected, please save your idb as a new snapshot'' [] w;
          w2 = w1\<lparr>project := or_None (netnode w1 ''group''),
                  binary := or_None (netnode w1 ''project''),
                  snapshot := or_None (netnode w1 ''database'')\<rparr>
      in case py_int (or_zero (netnode w2 ''tick'')) of
           None \<Rightarrow> Raised ValueError w2
         | Some t \<Rightarrow> Returned (save_netnode (w2\<lparr>tick := t, netnode := Map.empty\<rparr>)))"

definition load_netnode :: "core \<Rightarrow> outcome" where
  "load_netnode w =
     (case (if truthy (netnode w ''database'') then load_netnode_old w
            else (let w1 = w\<lparr>project := or_None (netnode w ''project''),
                              binary := or_None (netnode w ''binary''),
                              snapshot := or_None (netnode w ''snapshot'')\<rparr>
                  in case py_int (or_zero (netnode w1 ''tick'')) of
                       None \<Rightarrow> Raised ValueError w1
                     | Some t \<Rightarrow> Returned (w1\<lparr>tick := t\<rparr>))) of
        Raised e w' \<Rightarrow> Raised e w'
      | Returned w' \<Rightarrow>
          Returned (log_msg Debug ''Loaded netnode: project=%s, binary=%s, snapshot=%s, tick=%d''
                      [AStr (project w'), AStr (binary w'), AStr (snapshot w'), AInt (tick w')] w'))"

subsection \<open>Joining and leaving\<close>

text \<open>The callback of the snapshot query, run on the reply's list of snapshots.\<close>

definition snapshots_listed :: "snapshot_entry list \<Rightarrow> core \<Rightarrow> core" where
  "snapshots_listed reply w =
     (if list_ex (\<lambda>d. Some (snap_name d) = snapshot w) reply then
        (let w1 = log_msg Debug ''Snapshot is on the server'' [] w;
             w2 = send_packet
                    (JoinSession (host_id w1) (project w1) (binary w1) (snapshot w1) (tick w1)
                       (cfg_name w1) (cfg_color w1) (screen_ea w1)) w1;
             w3 = hook_all (w2\<lparr>session_joined := True\<rparr>)
         in w3\<lparr>users := Map.empty\<rparr>)
      else log_msg Debug ''Snapshot is not on the server'' [] w)"

definition join_session :: "core \<Rightarrow> core" where
  "join_session w =
     (if truthy (project w) \<and> truthy (binary w) \<and> truthy (snapshot w) then
        (let w1 = (if session_joined w then log_msg Debug ''Joining a new session'' [] w
                   else log_msg Info
                          ''Joining session: {self._host_id}, {self._project}, {self._binary}, {self._snapshot}''
                          [AStr (Some (host_id w)), AStr (project w), AStr (binary w), AStr (snapshot w)] w);
             w2 = send_packet (ListSnapshots_Query (project w1) (binary w1)) w1
         in if deferred w2 then w2\<lparr>callbacks := callbacks w2 + 1\<rparr> else w2)
      else (log_msg Debug ''Not joining any session yet'' [] w)\<lparr>session_joined := False\<rparr>)"

definition leave_session :: "core \<Rightarrow> core" where
  "leave_session w =
     (if \<not> session_joined w then log_msg Debug ''Already left session'' [] w
      else
        (let w1 = log_msg Debug ''Leaving session'' [] w;
             w2 = (if truthy (project w1) \<and> truthy (binary w1) \<and> truthy (snapshot w1)
                   then unhook_all
                          ((send_packet (LeaveSession (host_id w1) (cfg_name w1)) w1)
                             \<lparr>users := Map.empty\<rparr>)
                   else w1)
         in w2\<lparr>session_joined := False\<rparr>))"

text \<open>\<^verbatim>\<open>IDBHooksCore.closebase\<close>; its last assignment is to the attribute \<^verbatim>\<open>ticks\<close>.\<close>

definition closebase :: "core \<Rightarrow> core" where
  "closebase w =
     (let w1 = log_msg Trace ''Closebase hook'' [] w;
          w2 = save_netnode (leave_session w1);
          w3 = set_snapshot None (set_binary None (set_project None w2))
      in w3\<lparr>ticks := Some 0\<rparr>)"

subsection \<open>Sequences of session operations\<close>

text \<open>
  The operations that the host, the network and the other modules run on the core. A
  reply runs the callback of one unanswered query, if there is one. An operation that
  raises leaves the state it had reached.
\<close>

datatype session_op =
    Load_netnode
  | Join_session
  | Snapshots_listed "snapshot_entry list"
  | Leave_session
  | Closebase
  | Set_project "string option"
  | Set_binary "string option"
  | Set_snapshot "string option"

fun step :: "session_op \<Rightarrow> core \<Rightarrow> core" where
  "step Load_netnode w = state_of (load_netnode w)"
| "step Join_session w = join_session w"
| "step (Snapshots_listed reply) w =
     (if 0 < callbacks w then snapshots_listed reply (w\<lparr>callbacks := callbacks w - 1\<rparr>) else w)"
| "step Leave_session w = leave_session w"
| "step Closebase w = closebase w"
| "step (Set_project v) w = set_project v w"
| "step (Set_binary v) w = set_binary v w"
| "step (Set_snapshot v) w = set_snapshot v w"

definition run :: "session_op list \<Rightarrow> core \<Rightarrow> core" where
  "run ops w = fold step ops w"

subsection \<open>Example states\<close>

definition no_type :: LocalType where
  "no_type = \<lparr>lt_name = [], parsedList = [], TypeFields = [], lt_cmt = [], fieldcmts = []\<rparr>"

definition example_env :: "(string \<rightharpoonup> string) \<Rightarrow> core" where
  "example_env node =
     Core_init \<lparr>host_id = ''10.0.0.1'', project = None, binary = None, snapshot = None, tick = 0,
       ticks = None, users = Map.empty, session_joined = False, idb_hooks = False,
       idp_hooks = False, hxe_hooks = False, ui_hooks = False, hooked = False,
       local_type_map = Map.empty, netnode = node, sent = [], deferred = True, callbacks = 0,
       logged = [], cfg_name = ''alice'', cfg_color = 255, screen_ea = 4096,
       ordinal_count = 2, import_local_type = (\<lambda>i. no_type)\<rparr>"

definition legacy_node :: "string \<rightharpoonup> string" where
  "legacy_node = [''group'' \<mapsto> ''g'', ''project'' \<mapsto> ''p'', ''database'' \<mapsto> ''d'', ''tick'' \<mapsto> ''5'']"

definition plain_node :: "string \<rightharpoonup> string" where
  "plain_node = [''project'' \<mapsto> ''p'', ''binary'' \<mapsto> ''b'', ''snapshot'' \<mapsto> ''snap_v2'', ''tick'' \<mapsto> ''5'']"

definition frame_state :: core where
  "frame_state = (example_env plain_node)\<lparr>binary := Some ''b2'', snapshot := Some []\<rparr>"

definition joinable_state :: core where
  "joinable_state =
     (example_env plain_node)\<lparr>project := Some ''p'', binary := Some ''b'',
        snapshot := Some ''snap_v2'', tick := 5\<rparr>"

definition joined_state :: core where
  "joined_state = snapshots_listed [\<lparr>snap_name = ''snap_v2''\<rparr>] joinable_state"

section \<open>The string codecs of \<^verbatim>\<open>Event\<close> (\<^verbatim>\<open>events.py\<close>)\<close>

text \<open>
  A \<^verbatim>\<open>str\<close> is a list of code points (\<open>ustr\<close>, each below \<open>0x110000\<close>; surrogates may
  occur), a \<^verbatim>\<open>bytes\<close> object a list of \<open>char\<close>. The four static methods test the type of their
  argument, so the argument is a value of one of three kinds.
\<close>

datatype pyobj = Bytes bytes | Str ustr | Other string

subsection \<open>The codec \<^verbatim>\<open>utf-8\<close>, strict\<close>

text \<open>
  \<^verbatim>\<open>str.encode("utf-8")\<close> raises \<^verbatim>\<open>UnicodeEncodeError\<close> on a surrogate; \<open>None\<close> stands for
  the exception.
\<close>

definition is_surrogate :: "nat \<Rightarrow> bool" where
  "is_surrogate cp = (0xD800 \<le> cp \<and> cp \<le> 0xDFFF)"

definition utf8_char :: "nat \<Rightarrow> bytes option" where
  "utf8_char cp =
     (if cp < 0x80 then Some [char_of cp]
      else if cp < 0x800 then Some [char_of (0xC0 + cp div 64), char_of (0x80 + cp mod 64)]
      else if is_surrogate cp then None
      else if cp < 0x10000 then
        Some [char_of (0xE0 + cp div 4096), char_of (0x80 + cp div 64 mod 64),
              char_of (0x80 + cp mod 64)]
      else if cp < 0x110000 then
        Some [char_of (0xF0 + cp div 262144), char_of (0x80 + cp div 4096 mod 64),
              char_of (0x80 + cp div 64 mod 64), char_of (0x80 + cp mod 64)]
      else None)"

fun utf8_encode :: "ustr \<Rightarrow> bytes option" where
  "utf8_encode [] = Some []"
| "utf8_encode (c # cs) =
     (case utf8_char c of
        None \<Rightarrow> None
      | Some b \<Rightarrow> map_option (\<lambda>r. b @ r) (utf8_encode cs))"

text \<open>
  \<^verbatim>\<open>bytes.decode("utf-8")\<close> raises \<^verbatim>\<open>UnicodeDecodeError\<close> unless the bytes are a sequence
  of well-formed encodings: a lead byte gives the length, the other bytes are
  continuation bytes, and the code point is neither encoded longer than needed, nor a
  surrogate, nor above \<open>0x10FFFF\<close>.
\<close>

definition is_cont :: "char \<Rightarrow> bool" where
  "is_cont b = (0x80 \<le> (of_char b :: nat) \<and> (of_char b :: nat) < 0xC0)"

definition cont_bits :: "char \<Rightarrow> nat" where
  "cont_bits b = of_char b - 0x80"

fun utf8_decode :: "bytes \<Rightarrow> ustr option" where
  "utf8_decode [] = Some []"
| "utf8_decode (b0 # bs) =
     (if (of_char b0 :: nat) < 0x80 then map_option (\<lambda>r. of_char b0 # r) (utf8_decode bs)
      else if (of_char b0 :: nat) < 0xC2 then None
      else if (of_char b0 :: nat) < 0xE0 then
        (case bs of
           b1 # r \<Rightarrow>
             if is_cont b1
             then map_option (\<lambda>u. ((of_char b0 - 0xC0) * 64 + cont_bits b1) # u) (utf8_decode r)
             else None
         | _ \<Rightarrow> None)
      else if (of_char b0 :: nat) < 0xF0 then
        (case bs of
           b1 # b2 # r \<Rightarrow>
             if is_cont b1 \<and> is_cont b2 \<and>
                0x800 \<le> (of_char b0 - 0xE0) * 4096 + cont_bits b1 * 64 + cont_bits b2 \<and>
                \<not> is_surrogate ((of_char b0 - 0xE0) * 4096 + cont_bits b1 * 64 + cont_bits b2)
             then map_option
                    (\<lambda>u. ((of_char b0 - 0xE0) * 4096 + cont_bits b1 * 64 + cont_bits b2) # u)
                    (utf8_decode r)
             else None
         | _ \<Rightarrow> None)
      else if (of_char b0 :: nat) < 0xF5 then
        (case bs of
           b1 # b2 # b3 # r \<Rightarrow>
             if is_cont b1 \<and> is_cont b2 \<and> is_cont b3 \<and>
                0x10000 \<le> (of_char b0 - 0xF0) * 262144 + cont_bits b1 * 4096 +
                             cont_bits b2 * 64 + cont_bits b3 \<and>
                (of_char b0 - 0xF0) * 262144 + cont_bits b1 * 4096 +
                  cont_bits b2 * 64 + cont_bits b3 < 0x110000
             then map_option
                    (\<lambda>u. ((of_char b0 - 0xF0) * 262144 + cont_bits b1 * 4096 +
                            cont_bits b2 * 64 + cont_bits b3) # u)
                    (utf8_decode r)
             else None
         | _ \<Rightarrow> None)
      else None)"

subsection \<open>The codec \<^verbatim>\<open>raw_unicode_escape\<close>\<close>

text \<open>
  Encoding writes a code point below 256 as the byte of that value (a backslash too),
  a code point below \<open>0x10000\<close> as backslash, \<^verbatim>\<open>u\<close> and four lower-case hexadecimal digits,
  and any other as backslash, \<^verbatim>\<open>U\<close> and eight digits. It never fails.
\<close>

definition backslash :: char where
  "backslash = char_of (0x5C :: nat)"

definition hex_digit :: "nat \<Rightarrow> char" where
  "hex_digit d = (if d < 10 then char_of (48 + d) else char_of (87 + d))"

definition hex4 :: "nat \<Rightarrow> bytes" where
  "hex4 cp =
     [hex_digit (cp div 4096 mod 16), hex_digit (cp div 256 mod 16),
      hex_digit (cp div 16 mod 16), hex_digit (cp mod 16)]"

definition rue_char :: "nat \<Rightarrow> bytes" where
  "rue_char cp =
     (if cp < 0x100 then [char_of cp]
      else if cp < 0x10000 then backslash # CHR ''u'' # hex4 cp
      else backslash # CHR ''U'' # hex4 (cp div 65536) @ hex4 (cp mod 65536))"

definition rue_encode :: "ustr \<Rightarrow> bytes" where
  "rue_encode s = concat (map rue_char s)"

text \<open>
  Decoding reads a byte other than a backslash, and a backslash that ends the input, as
  the code point of that value. A backslash followed by \<^verbatim>\<open>u\<close> starts an escape of four
  hexadecimal digits (of either case), followed by \<^verbatim>\<open>U\<close> one of eight digits with a value of
  at most \<open>0x10FFFF\<close>; a short or malformed escape raises \<^verbatim>\<open>UnicodeDecodeError\<close> (\<open>None\<close>). A
  backslash followed by any other byte is read with that byte, both as themselves.
\<close>

definition hex_val :: "char \<Rightarrow> nat option" where
  "hex_val c =
     (let n = (of_char c :: nat) in
      if 48 \<le> n \<and> n \<le> 57 then Some (n - 48)
      else if 97 \<le> n \<and> n \<le> 102 then Some (n - 87)
      else if 65 \<le> n \<and> n \<le> 70 then Some (n - 55)
      else None)"

fun hex_number :: "nat \<Rightarrow> bytes \<Rightarrow> nat option" where
  "hex_number acc [] = Some acc"
| "hex_number acc (c # cs) =
     (case hex_val c of None \<Rightarrow> None | Some v \<Rightarrow> hex_number (16 * acc + v) cs)"

definition read_escape :: "nat \<Rightarrow> bytes \<Rightarrow> nat option" where
  "read_escape n cs = (if length cs < n then None else hex_number 0 (take n cs))"

function rue_decode :: "bytes \<Rightarrow> ustr option" where
  "rue_decode [] = Some []"
| "rue_decode [c] = Some [of_char c]"
| "rue_decode (c # d # cs) =
     (if c \<noteq> backslash then map_option (\<lambda>r. of_char c # r) (rue_decode (d # cs))
      else if d = CHR ''u'' then
        (case read_escape 4 cs of
           None \<Rightarrow> None
         | Some v \<Rightarrow> map_option (\<lambda>r. v # r) (rue_decode (drop 4 cs)))
      else if d = CHR ''U'' then
        (case read_escape 8 cs of
           None \<Rightarrow> None
         | Some v \<Rightarrow>
             if 0x10FFFF < v then None
             else map_option (\<lambda>r. v # r) (rue_decode (drop 8 cs)))
      else map_option (\<lambda>r. of_char c # of_char d # r) (rue_decode cs))"
  by pat_completeness auto
termination
  by (relation "measure length") auto

text \<open>Whether the decoder meets an escape in its input.\<close>

fun has_escape :: "bytes \<Rightarrow> bool" where
  "has_escape [] = False"
| "has_escape [c] = False"
| "has_escape (c # d # cs) =
     (if c \<noteq> backslash then has_escape (d # cs)
      else if d = CHR ''u'' \<or> d = CHR ''U'' then True
      else has_escape cs)"

subsection \<open>The static methods\<close>

definition encode :: "pyobj \<Rightarrow> py_error + pyobj" where
  "encode s =
     (case s of
        Bytes b \<Rightarrow> Inr (Bytes b)
      | Str u \<Rightarrow> (case utf8_encode u of None \<Rightarrow> Inl UnicodeError | Some b \<Rightarrow> Inr (Bytes b))
      | Other x \<Rightarrow> Inl NotImplementedError)"

definition encode_bytes :: "pyobj \<Rightarrow> py_error + pyobj" where
  "encode_bytes s =
     (case s of
        Bytes b \<Rightarrow> Inr (Bytes b)
      | Str u \<Rightarrow> Inr (Bytes (rue_encode u))
      | Other x \<Rightarrow> Inr (Other x))"

definition decode :: "pyobj \<Rightarrow> py_error + pyobj" where
  "decode s =
     (case s of
        Str u \<Rightarrow> Inr (Str u)
      | Bytes b \<Rightarrow> (case utf8_decode b of None \<Rightarrow> Inl UnicodeError | Some u \<Rightarrow> Inr (Str u))
      | Other x \<Rightarrow> Inl NotImplementedError)"

definition decode_bytes :: "pyobj \<Rightarrow> py_error + pyobj" where
  "decode_bytes s =
     (case s of
        Str u \<Rightarrow> Inr (Str u)
      | Bytes b \<Rightarrow> (case rue_decode b of None \<Rightarrow> Inl UnicodeError | Some u \<Rightarrow> Inr (Str u))
      | Other x \<Rightarrow> Inr (Other x))"

text \<open>\<^verbatim>\<open>g(f(x))\<close>: an exception of \<^verbatim>\<open>f\<close> is the exception of the whole.\<close>

definition after :: "('a \<Rightarrow> py_error + 'b) \<Rightarrow> (py_error + 'a) \<Rightarrow> py_error + 'b" where
  "after g r = (case r of Inl e \<Rightarrow> Inl e | Inr v \<Rightarrow> g v)"

section \<open>Replaying events (\<^verbatim>\<open>events.py\<close>)\<close>

subsection \<open>The host\<close>

text \<open>
  An event is replayed by calls into the host. The calls that change the host are
  recorded in order; each may raise, and whether it does is the host's matter: it is given
  by \<open>fails\<close>, from the calls made so far and the call at hand. What the event reads from
  the host (widgets, functions, segments, structure ids, the bits of a flag word) and the
  host's constants are fields of the same record; their answers are taken as fixed while
  one event is applied. Functions, segments and widgets are handles.
\<close>

datatype iwid = IWID_SEGS | IWID_LOCTYPS

datatype ida_call =
    DeleteType ustr
  | InsertType LocalType bool
  | EditTypeInPlace ustr LocalType
  | set_func_cmt "nat option" string bool
  | set_segment_cmt "nat option" string bool
  | request_refresh iwid
  | refresh_view nat bool
  | del_segm int int

record ida =
  fails :: "ida_call list \<Rightarrow> ida_call \<Rightarrow> py_error option"
  find_widget :: "string \<Rightarrow> nat option"
  widget_entry_ea :: "nat \<Rightarrow> int option"
  get_func :: "int \<Rightarrow> nat option"
  func_contains :: "nat option \<Rightarrow> int \<Rightarrow> bool"
  getseg :: "int \<Rightarrow> nat option"
  get_struc_id :: "string \<Rightarrow> int"
  is_struct :: "int \<Rightarrow> bool"
  is_strlit :: "int \<Rightarrow> bool"
  off_flag :: int
  enum_flag :: int
  RANGE_KIND_FUNC :: int
  RANGE_KIND_SEGMENT :: int
  SEGMOD_SILENT :: int

text \<open>The lines written by \<^verbatim>\<open>print\<close>, with the printed values kept as values.\<close>

record type_tuple =
  t_name :: ustr
  parsed_list :: "ustr list"
  type_fields :: ustr
  t_cmt :: ustr
  field_cmts :: ustr

datatype print_line =
    Callback_line "type_tuple option" "type_tuple option"
  | Failed_line py_error "type_tuple option" "type_tuple option"

record replay =
  calls :: "ida_call list"
  printed :: "print_line list"

datatype applied = Applied replay | Raising py_error replay

fun replay_of :: "applied \<Rightarrow> replay" where
  "replay_of (Applied r) = r"
| "replay_of (Raising e r) = r"

fun and_then :: "applied \<Rightarrow> (replay \<Rightarrow> applied) \<Rightarrow> applied" where
  "and_then (Applied r) f = f r"
| "and_then (Raising e r) f = Raising e r"

definition host_call :: "ida \<Rightarrow> ida_call \<Rightarrow> replay \<Rightarrow> applied" where
  "host_call h c r =
     (case fails h (calls r) c of
        None \<Rightarrow> Applied (r\<lparr>calls := calls r @ [c]\<rparr>)
      | Some e \<Rightarrow> Raising e (r\<lparr>calls := calls r @ [c]\<rparr>))"

subsection \<open>\<^verbatim>\<open>HexRaysEvent.refresh_pseudocode_view\<close>\<close>

text \<open>
  \<open>widget_entry_ea\<close> is \<^verbatim>\<open>get_widget_vdui(widget).cfunc.entry_ea\<close>; \<open>None\<close> when the widget
  has no decompiled function, where the attribute access raises.
\<close>

definition pseudocode_names :: "string list" where
  "pseudocode_names = map (\<lambda>i. ''Pseudocode-'' @ [char_of (65 + i)]) [0 ..< 5]"

fun refresh_widgets :: "ida \<Rightarrow> int \<Rightarrow> string list \<Rightarrow> replay \<Rightarrow> applied" where
  "refresh_widgets h a [] r = Applied r"
| "refresh_widgets h a (name # names) r =
     (case find_widget h name of
        None \<Rightarrow> refresh_widgets h a names r
      | Some widget \<Rightarrow>
          (case widget_entry_ea h widget of
             None \<Rightarrow> Raising AttributeError r
           | Some func_ea \<Rightarrow>
               if func_contains h (get_func h func_ea) a
               then and_then (host_call h (refresh_view widget False) r)
                      (refresh_widgets h a names)
               else refresh_widgets h a names r))"

definition refresh_pseudocode_view :: "ida \<Rightarrow> int \<Rightarrow> replay \<Rightarrow> applied" where
  "refresh_pseudocode_view h a r = refresh_widgets h a pseudocode_names r"

subsection \<open>\<^verbatim>\<open>RangeCmtChangedEvent\<close>\<close>

record RangeCmtChangedEvent =
  kind :: int
  start_ea :: int
  end_ea :: int
  cmt :: string
  rptble :: bool

definition RangeCmtChangedEvent_call :: "ida \<Rightarrow> RangeCmtChangedEvent \<Rightarrow> replay \<Rightarrow> applied" where
  "RangeCmtChangedEvent_call h ev r =
     (if kind ev = RANGE_KIND_FUNC h then
        and_then (host_call h (set_func_cmt (get_func h (start_ea ev)) (cmt ev) (rptble ev)) r)
          (refresh_pseudocode_view h (start_ea ev))
      else if kind ev = RANGE_KIND_SEGMENT h then
        and_then (host_call h (set_segment_cmt (getseg h (start_ea ev)) (cmt ev) (rptble ev)) r)
          (host_call h (request_refresh IWID_SEGS))
      else Raising (Exception (''Unsupported range kind: '' @ str_of_int (kind ev))) r)"

subsection \<open>\<^verbatim>\<open>LocalTypesChangedEvent\<close>\<close>

record LocalTypesChangedEvent =
  local_types :: "(type_tuple option \<times> type_tuple option) list"

text \<open>
  The body of the \<^verbatim>\<open>try\<close>. Indexing \<^verbatim>\<open>None\<close> raises \<^verbatim>\<open>TypeError\<close>; the three
  \<^verbatim>\<open>encode()\<close> calls raise on a surrogate, before any call into the host.
\<close>

definition apply_local_type ::
    "ida \<Rightarrow> type_tuple option \<Rightarrow> type_tuple option \<Rightarrow> replay \<Rightarrow> applied" where
  "apply_local_type h old_tuple new_tuple r =
     (case new_tuple of
        None \<Rightarrow>
          (case old_tuple of
             None \<Rightarrow> Raising TypeError r
           | Some ot \<Rightarrow> host_call h (DeleteType (t_name ot)) r)
      | Some nt \<Rightarrow>
          (case utf8_encode (type_fields nt) of
             None \<Rightarrow> Raising UnicodeError r
           | Some tf \<Rightarrow>
               (case utf8_encode (t_cmt nt) of
                  None \<Rightarrow> Raising UnicodeError r
                | Some c \<Rightarrow>
                    (case utf8_encode (field_cmts nt) of
                       None \<Rightarrow> Raising UnicodeError r
                     | Some fc \<Rightarrow>
                         (let new_type = \<lparr>lt_name = t_name nt, parsedList = parsed_list nt,
                                TypeFields = tf, lt_cmt = c, fieldcmts = fc\<rparr>
                          in case old_tuple of
                               None \<Rightarrow> host_call h (InsertType new_type True) r
                             | Some ot \<Rightarrow> host_call h (EditTypeInPlace (t_name ot) new_type) r)))))"

text \<open>One turn of the loop: the line printed first, the \<^verbatim>\<open>try\<close>, and its \<^verbatim>\<open>except\<close>.\<close>

definition apply_pair :: "ida \<Rightarrow> type_tuple option \<times> type_tuple option \<Rightarrow> replay \<Rightarrow> replay" where
  "apply_pair h p r =
     (case apply_local_type h (fst p) (snd p)
             (r\<lparr>printed := printed r @ [Callback_line (fst p) (snd p)]\<rparr>) of
        Applied r' \<Rightarrow> r'
      | Raising e r' \<Rightarrow> r'\<lparr>printed := printed r' @ [Failed_line e (fst p) (snd p)]\<rparr>)"

definition LocalTypesChangedEvent_call :: "ida \<Rightarrow> LocalTypesChangedEvent \<Rightarrow> replay \<Rightarrow> applied" where
  "LocalTypesChangedEvent_call h ev r =
     host_call h (request_refresh IWID_LOCTYPS) (fold (apply_pair h) (local_types ev) r)"

text \<open>
  The policy in the words of the specification: the call that a pair stands for. A new
  tuple whose texts cannot be encoded stands for no call, and so does a pair of two
  absent tuples.
\<close>

definition new_local_type :: "type_tuple \<Rightarrow> LocalType option" where
  "new_local_type nt =
     (case (utf8_encode (type_fields nt), utf8_encode (t_cmt nt), utf8_encode (field_cmts nt)) of
        (Some tf, Some c, Some fc) \<Rightarrow>
          Some \<lparr>lt_name = t_name nt, parsedList = parsed_list nt, TypeFields = tf, lt_cmt = c,
                fieldcmts = fc\<rparr>
      | _ \<Rightarrow> None)"

fun policy :: "type_tuple option \<times> type_tuple option \<Rightarrow> ida_call list" where
  "policy (Some ot, None) = [DeleteType (t_name ot)]"
| "policy (None, Some nt) =
     (case new_local_type nt of None \<Rightarrow> [] | Some t \<Rightarrow> [InsertType t True])"
| "policy (Some ot, Some nt) =
     (case new_local_type nt of None \<Rightarrow> [] | Some t \<Rightarrow> [EditTypeInPlace (t_name ot) t])"
| "policy (None, None) = []"

subsection \<open>\<^verbatim>\<open>SegmDeletedEvent\<close>\<close>

text \<open>The attribute \<^verbatim>\<open>flags\<close> is absent in an event made by an older version.\<close>

record SegmDeletedEvent =
  ea :: int
  flags :: "int option"

text \<open>The call assigns the attribute when it is absent: the event is returned too.\<close>

definition SegmDeletedEvent_call ::
    "ida \<Rightarrow> SegmDeletedEvent \<Rightarrow> replay \<Rightarrow> SegmDeletedEvent \<times> applied" where
  "SegmDeletedEvent_call h ev r =
     (let ev' = (if flags ev = None then ev\<lparr>flags := Some 0\<rparr> else ev)
      in (ev', host_call h (del_segm (ea ev') (the (flags ev') OR SEGMOD_SILENT h)) r))"

subsection \<open>\<^verbatim>\<open>StrucMemberEvent._get_member_type\<close>\<close>

text \<open>
  The record \<^verbatim>\<open>extra\<close> is a dictionary from names to numbers or strings; a missing key
  raises \<^verbatim>\<open>KeyError\<close>. The descriptor \<^verbatim>\<open>opinfo_t\<close> is given by the fields this function
  assigns (\<open>None\<close>: not assigned); that the host overlays them in one union is not
  modelled.
\<close>

datatype pyval = PInt int | PStr string

datatype member_error = KeyError string | ArgTypeError

record opinfo_t =
  tid :: "int option"
  ri :: "(pyval \<times> pyval \<times> pyval \<times> pyval) option"
  ec_serial :: "pyval option"
  ec_tid :: "pyval option"
  strtype :: "pyval option"

definition item :: "(string \<rightharpoonup> pyval) \<Rightarrow> string \<Rightarrow> member_error + pyval" where
  "item extra k = (case extra k of None \<Rightarrow> Inl (KeyError k) | Some v \<Rightarrow> Inr v)"

definition get_default :: "(string \<rightharpoonup> pyval) \<Rightarrow> string \<Rightarrow> pyval \<Rightarrow> pyval" where
  "get_default extra k d = (case extra k of None \<Rightarrow> d | Some v \<Rightarrow> v)"

definition bind_m :: "member_error + 'a \<Rightarrow> ('a \<Rightarrow> member_error + 'b) \<Rightarrow> member_error + 'b" where
  "bind_m r f = (case r of Inl e \<Rightarrow> Inl e | Inr v \<Rightarrow> f v)"

text \<open>The four \<^verbatim>\<open>if\<close> statements of the function, in its order, and the function.\<close>

definition set_struct_tid ::
    "ida \<Rightarrow> int \<Rightarrow> (string \<rightharpoonup> pyval) \<Rightarrow> opinfo_t \<Rightarrow> member_error + opinfo_t" where
  "set_struct_tid h type_flag extra mt =
     (if is_struct h type_flag then
        bind_m (item extra ''struc_name'')
          (\<lambda>v. case v of
                  PStr s \<Rightarrow> Inr (mt\<lparr>tid := Some (get_struc_id h s)\<rparr>)
                | PInt i \<Rightarrow> Inl ArgTypeError)
      else Inr mt)"

definition set_refinfo ::
    "ida \<Rightarrow> int \<Rightarrow> (string \<rightharpoonup> pyval) \<Rightarrow> opinfo_t \<Rightarrow> member_error + opinfo_t" where
  "set_refinfo h type_flag extra mt =
     (if type_flag AND off_flag h \<noteq> 0 then
        bind_m (item extra ''flags'') (\<lambda>f.
        bind_m (item extra ''base'') (\<lambda>b.
        bind_m (item extra ''target'') (\<lambda>t.
        bind_m (item extra ''tdelta'') (\<lambda>d. Inr (mt\<lparr>ri := Some (f, b, t, d)\<rparr>)))))
      else Inr mt)"

definition set_enum_const ::
    "ida \<Rightarrow> int \<Rightarrow> (string \<rightharpoonup> pyval) \<Rightarrow> opinfo_t \<Rightarrow> member_error + opinfo_t" where
  "set_enum_const h type_flag extra mt =
     (if type_flag AND enum_flag h \<noteq> 0 then
        bind_m (item extra ''serial'')
          (\<lambda>s. Inr (mt\<lparr>ec_serial := Some s, ec_tid := Some (get_default extra ''tid'' (PInt 0))\<rparr>))
      else Inr mt)"

definition set_strtype ::
    "ida \<Rightarrow> int \<Rightarrow> (string \<rightharpoonup> pyval) \<Rightarrow> opinfo_t \<Rightarrow> member_error + opinfo_t" where
  "set_strtype h type_flag extra mt =
     (if is_strlit h type_flag then
        bind_m (item extra ''strtype'') (\<lambda>s. Inr (mt\<lparr>strtype := Some s\<rparr>))
      else Inr mt)"

definition get_member_type :: "ida \<Rightarrow> int \<Rightarrow> (string \<rightharpoonup> pyval) \<Rightarrow> member_error + opinfo_t" where
  "get_member_type h type_flag extra =
     bind_m (set_struct_tid h type_flag extra
               \<lparr>tid = None, ri = None, ec_serial = None, ec_tid = None, strtype = None\<rparr>) (\<lambda>mt1.
     bind_m (set_refinfo h type_flag extra mt1) (\<lambda>mt2.
     bind_m (set_enum_const h type_flag extra mt2) (\<lambda>mt3.
     set_strtype h type_flag extra mt3)))"

subsection \<open>Example host and events\<close>

definition example_ida :: "(ida_call list \<Rightarrow> ida_call \<Rightarrow> py_error option) \<Rightarrow> ida" where
  "example_ida fl =
     \<lparr>fails = fl,
      find_widget = (\<lambda>n. if n = ''Pseudocode-A'' then Some 1 else None),
      widget_entry_ea = (\<lambda>w. Some 4096),
      get_func = (\<lambda>a. if a = 4096 then Some 7 else None),
      func_contains = (\<lambda>f a. f = Some 7 \<and> a = 4096),
      getseg = (\<lambda>a. Some 3),
      get_struc_id = (\<lambda>s. 9),
      is_struct = (\<lambda>f. False),
      is_strlit = (\<lambda>f. False),
      off_flag = 0x5500000,
      enum_flag = 0x8800000,
      RANGE_KIND_FUNC = 1,
      RANGE_KIND_SEGMENT = 2,
      SEGMOD_SILENT = 4\<rparr>"

definition no_failure :: "ida_call list \<Rightarrow> ida_call \<Rightarrow> py_error option" where
  "no_failure hist c = None"

definition delete_fails :: "ida_call list \<Rightarrow> ida_call \<Rightarrow> py_error option" where
  "delete_fails hist c = (case c of DeleteType n \<Rightarrow> Some (Exception ''no such type'') | _ \<Rightarrow> None)"

definition empty_replay :: replay where
  "empty_replay = \<lparr>calls = [], printed = []\<rparr>"

definition range_event :: "int \<Rightarrow> RangeCmtChangedEvent" where
  "range_event k = \<lparr>kind = k, start_ea = 4096, end_ea = 4200, cmt = ''note'', rptble = True\<rparr>"

definition tuple_a :: type_tuple where
  "tuple_a = \<lparr>t_name = [97], parsed_list = [], type_fields = [], t_cmt = [], field_cmts = []\<rparr>"

definition tuple_b :: type_tuple where
  "tuple_b = \<lparr>t_name = [98], parsed_list = [], type_fields = [], t_cmt = [], field_cmts = []\<rparr>"

definition type_a :: LocalType where
  "type_a = \<lparr>lt_name = [97], parsedList = [], TypeFields = [], lt_cmt = [], fieldcmts = []\<rparr>"

definition type_b :: LocalType where
  "type_b = \<lparr>lt_name = [98], parsedList = [], TypeFields = [], lt_cmt = [], fieldcmts = []\<rparr>"

definition three_pairs :: LocalTypesChangedEvent where
  "three_pairs =
     \<lparr>local_types = [(None, Some tuple_a), (Some tuple_a, None), (Some tuple_b, Some tuple_a)]\<rparr>"

definition enum_extra :: "string \<rightharpoonup> pyval" where
  "enum_extra = [''serial'' \<mapsto> PInt 2]"

section \<open>Properties of the core\<close>

subsection \<open>Decimal numerals\<close>

lemma is_digit_digit_char: "d < 10 \<Longrightarrow> is_digit (digit_char d)"
  by (simp add: is_digit_def digit_char_def)

lemma digit_val_digit_char: "d < 10 \<Longrightarrow> digit_val (digit_char d) = d"
  by (simp add: digit_val_def digit_char_def)

lemma str_of_nat_digits: "\<forall>c \<in> set (str_of_nat n). is_digit c"
proof (induction n rule: str_of_nat.induct)
  case (1 n)
  show ?case
  proof (cases "n < 10")
    case True
    then show ?thesis by (subst str_of_nat.simps) (simp add: is_digit_digit_char)
  next
    case False
    with 1 have "\<forall>c \<in> set (str_of_nat (n div 10)). is_digit c" by simp
    with False show ?thesis
      by (subst str_of_nat.simps) (simp add: is_digit_digit_char)
  qed
qed

lemma str_of_nat_nonempty: "str_of_nat n \<noteq> []"
  by (subst str_of_nat.simps) simp

lemma read_digits_all_digits:
  "\<forall>c \<in> set s. is_digit c \<Longrightarrow> read_digits acc s = Some (dec_val acc s)"
  by (induction acc s rule: read_digits.induct) (simp_all add: dec_val_def)

lemma dec_val_str_of_nat: "dec_val 0 (str_of_nat n) = n"
proof (induction n rule: str_of_nat.induct)
  case (1 n)
  show ?case
  proof (cases "n < 10")
    case True
    then show ?thesis by (subst str_of_nat.simps) (simp add: dec_val_def digit_val_digit_char)
  next
    case False
    with 1 have "dec_val 0 (str_of_nat (n div 10)) = n div 10" by simp
    with False show ?thesis
      by (subst str_of_nat.simps) (simp add: dec_val_def digit_val_digit_char)
  qed
qed

lemma read_nat_str_of_nat: "read_nat (str_of_nat n) = Some n"
proof -
  obtain c cs where s: "str_of_nat n = c # cs"
    using str_of_nat_nonempty [of n] by (cases "str_of_nat n") auto
  have d: "\<forall>c \<in> set (str_of_nat n). is_digit c" by (rule str_of_nat_digits)
  then have "is_digit c" using s by simp
  then have "read_nat (str_of_nat n) = read_digits 0 (str_of_nat n)"
    using s by (simp add: read_nat_def)
  then show ?thesis
    using read_digits_all_digits [OF d, of 0] by (simp add: dec_val_str_of_nat)
qed

lemma is_digit_not_space: "is_digit c \<Longrightarrow> \<not> is_py_space c"
  by (auto simp: is_digit_def is_py_space_def)

lemma is_digit_not_sign: "is_digit c \<Longrightarrow> c \<noteq> CHR ''-'' \<and> c \<noteq> CHR ''+''"
  by (auto simp: is_digit_def)

lemma dropWhile_hd: "xs \<noteq> [] \<Longrightarrow> \<not> P (hd xs) \<Longrightarrow> dropWhile P xs = xs"
  by (cases xs) auto

lemma py_strip_id:
  assumes "s \<noteq> []" "\<not> is_py_space (hd s)" "\<not> is_py_space (last s)"
  shows "py_strip s = s"
proof -
  have 1: "dropWhile is_py_space s = s"
    using assms by (simp add: dropWhile_hd)
  have "rev s \<noteq> []" using assms by simp
  moreover have "\<not> is_py_space (hd (rev s))" using assms by (simp add: hd_rev)
  ultimately have 2: "dropWhile is_py_space (rev s) = rev s"
    by (rule dropWhile_hd)
  show ?thesis by (simp add: py_strip_def 1 2)
qed

lemma py_strip_str_of_nat: "py_strip (str_of_nat n) = str_of_nat n"
proof (rule py_strip_id)
  show ne: "str_of_nat n \<noteq> []" by (rule str_of_nat_nonempty)
  have d: "\<forall>c \<in> set (str_of_nat n). is_digit c" by (rule str_of_nat_digits)
  show "\<not> is_py_space (hd (str_of_nat n))"
    using ne d by (simp add: is_digit_not_space)
  show "\<not> is_py_space (last (str_of_nat n))"
    using ne d by (simp add: is_digit_not_space)
qed

lemma py_int_str_of_int: "py_int (str_of_int i) = Some i"
proof (cases "i < 0")
  case True
  let ?s = "CHR ''-'' # str_of_nat (nat (- i))"
  have d: "\<forall>c \<in> set (str_of_nat (nat (- i))). is_digit c" by (rule str_of_nat_digits)
  have ne: "str_of_nat (nat (- i)) \<noteq> []" by (rule str_of_nat_nonempty)
  have "\<not> is_py_space (last ?s)" using ne d by (simp add: is_digit_not_space)
  moreover have "\<not> is_py_space (hd ?s)" by (simp add: is_py_space_def)
  ultimately have "py_strip ?s = ?s" by (intro py_strip_id) simp_all
  then show ?thesis using True
    by (simp add: py_int_def str_of_int_def read_nat_str_of_nat)
next
  case False
  obtain c cs where s: "str_of_nat (nat i) = c # cs"
    using str_of_nat_nonempty [of "nat i"] by (cases "str_of_nat (nat i)") auto
  have "is_digit c" using str_of_nat_digits [of "nat i"] s by simp
  then have c: "c \<noteq> CHR ''-''" "c \<noteq> CHR ''+''" using is_digit_not_sign by auto
  have "read_nat (c # cs) = Some (nat i)" using read_nat_str_of_nat [of "nat i"] s by simp
  then show ?thesis using False c s py_strip_str_of_nat [of "nat i"]
    by (simp add: py_int_def str_of_int_def)
qed

lemma str_of_int_minus_one: "str_of_int i = ''-1'' \<longleftrightarrow> i = - 1"
proof
  assume "str_of_int i = ''-1''"
  then have "py_int (str_of_int i) = py_int ''-1''" by simp
  then have "Some i = py_int ''-1''" by (simp add: py_int_str_of_int)
  also have "py_int ''-1'' = Some (- 1)"
    by (simp add: py_int_def py_strip_def is_py_space_def read_nat_def is_digit_def digit_val_def)
  finally show "i = - 1" by simp
next
  assume "i = - 1"
  then show "str_of_int i = ''-1''"
    by (simp add: str_of_int_def str_of_nat.simps [of 1] digit_char_def del: char_of_def) code_simp
qed

subsection \<open>Hooks and the netnode\<close>

text \<open>
  Claim C9. \<^verbatim>\<open>hook_all\<close> on a core whose hooks are installed changes nothing, neither
  the hook state nor the log nor the local type map; \<^verbatim>\<open>unhook_all\<close> on a core whose hooks
  are not installed changes nothing. Hence running either twice is running it once, from
  every state.
\<close>

theorem hook_unhook_idempotent:
  "hook_all (hook_all w) = hook_all w \<and> unhook_all (unhook_all w) = unhook_all w \<and>
   (if hooked w then hook_all w = w else unhook_all w = w)"
  by (simp add: hook_all_def unhook_all_def update_local_types_map_def log_msg_def)

lemma netnode_save_netnode:
  "netnode (save_netnode w) k =
     (if k = ''tick'' \<and> tick w \<noteq> - 1 then Some (str_of_int (tick w))
      else if k = ''snapshot'' \<and> truthy (snapshot w) then snapshot w
      else if k = ''binary'' \<and> truthy (binary w) then binary w
      else if k = ''project'' \<and> truthy (project w) then project w
      else netnode w k)"
  by (auto simp add: save_netnode_def Let_def hashset_buf_def log_msg_def truthy_def split: option.splits)

lemma save_netnode_fields [simp]:
  "project (save_netnode w) = project w" "binary (save_netnode w) = binary w"
  "snapshot (save_netnode w) = snapshot w" "tick (save_netnode w) = tick w"
  "session_joined (save_netnode w) = session_joined w" "hooked (save_netnode w) = hooked w"
  "sent (save_netnode w) = sent w" "users (save_netnode w) = users w"
  by (simp_all add: save_netnode_def Let_def hashset_buf_def log_msg_def)

text \<open>
  Claim C10. \<^verbatim>\<open>save_netnode\<close> writes the key of an identifier only when the field is
  true, and the key \<^verbatim>\<open>tick\<close> only when the tick is not \<open>- 1\<close>. A key it does not write
  keeps the value it had, so assigning \<^verbatim>\<open>None\<close> to an identifier leaves its stored key
  alone; the numeral of \<open>- 1\<close> is never written; no other key is touched.
\<close>

theorem save_netnode_frame:
  "(\<not> truthy (project w) \<longrightarrow> netnode (save_netnode w) ''project'' = netnode w ''project'') \<and>
   (\<not> truthy (binary w) \<longrightarrow> netnode (save_netnode w) ''binary'' = netnode w ''binary'') \<and>
   (\<not> truthy (snapshot w) \<longrightarrow> netnode (save_netnode w) ''snapshot'' = netnode w ''snapshot'') \<and>
   (tick w = - 1 \<longrightarrow> netnode (save_netnode w) ''tick'' = netnode w ''tick'') \<and>
   (truthy (project w) \<longrightarrow> netnode (save_netnode w) ''project'' = project w) \<and>
   (truthy (binary w) \<longrightarrow> netnode (save_netnode w) ''binary'' = binary w) \<and>
   (truthy (snapshot w) \<longrightarrow> netnode (save_netnode w) ''snapshot'' = snapshot w) \<and>
   (tick w \<noteq> - 1 \<longrightarrow> netnode (save_netnode w) ''tick'' = Some (str_of_int (tick w))) \<and>
   (netnode (save_netnode w) ''tick'' = Some ''-1'' \<longrightarrow> netnode w ''tick'' = Some ''-1'') \<and>
   (k \<notin> {''project'', ''binary'', ''snapshot'', ''tick''} \<longrightarrow>
      netnode (save_netnode w) k = netnode w k) \<and>
   netnode (set_project None w) ''project'' = netnode w ''project'' \<and>
   netnode (set_binary None w) ''binary'' = netnode w ''binary'' \<and>
   netnode (set_snapshot None w) ''snapshot'' = netnode w ''snapshot''"
  by (simp add: netnode_save_netnode str_of_int_minus_one set_project_def set_binary_def
      set_snapshot_def truthy_def)

text \<open>
  An instance: the project is unset and the snapshot is the empty string, the tick is the
  sentinel; only the binary is written.
\<close>

theorem save_netnode_frame_witness:
  "\<not> truthy (project frame_state) \<and> tick frame_state = - 1 \<and>
   netnode (save_netnode frame_state) ''project'' = Some ''p'' \<and>
   netnode (save_netnode frame_state) ''binary'' = Some ''b2'' \<and>
   netnode (save_netnode frame_state) ''snapshot'' = Some ''snap_v2'' \<and>
   netnode (save_netnode frame_state) ''tick'' = Some ''5'' \<and>
   netnode (save_netnode frame_state) ''group'' = None"
  using save_netnode_frame [of frame_state "''group''"]
  by (simp add: frame_state_def example_env_def Core_init_def plain_node_def truthy_def)

subsection \<open>Joining\<close>

lemma hook_all_fields [simp]:
  "hooked (hook_all w)" "sent (hook_all w) = sent w" "session_joined (hook_all w) = session_joined w"
  "users (hook_all w) = users w" "tick (hook_all w) = tick w"
  "project (hook_all w) = project w" "binary (hook_all w) = binary w" "snapshot (hook_all w) = snapshot w"
  "netnode (hook_all w) = netnode w"
  by (simp_all add: hook_all_def update_local_types_map_def log_msg_def)

lemma hook_all_objects:
  "\<not> hooked w \<Longrightarrow> idb_hooks (hook_all w) \<and> idp_hooks (hook_all w) \<and> hxe_hooks (hook_all w) \<and> ui_hooks (hook_all w)"
  by (simp add: hook_all_def update_local_types_map_def log_msg_def)

text \<open>
  Claim C1. When the reply to the snapshot query arrives, a \<^verbatim>\<open>JoinSession\<close> packet is handed
  to the network exactly when an entry of the reply is named like the local snapshot. It
  then carries the identifiers and the tick of that moment, the session is joined, the
  roster is empty and the hooks are installed. Otherwise nothing is sent and the joined
  flag, the roster and the hooks are as before. \<^verbatim>\<open>join_session\<close> itself sends no
  \<^verbatim>\<open>JoinSession\<close>.
\<close>

theorem join_gating:
  "(list_ex (\<lambda>d. Some (snap_name d) = snapshot w) reply \<longrightarrow>
      sent (snapshots_listed reply w) =
        sent w @ [JoinSession (host_id w) (project w) (binary w) (snapshot w) (tick w)
                    (cfg_name w) (cfg_color w) (screen_ea w)] \<and>
      session_joined (snapshots_listed reply w) \<and>
      users (snapshots_listed reply w) = Map.empty \<and>
      hooked (snapshots_listed reply w) \<and>
      (\<not> hooked w \<longrightarrow> idb_hooks (snapshots_listed reply w) \<and> idp_hooks (snapshots_listed reply w) \<and>
         hxe_hooks (snapshots_listed reply w) \<and> ui_hooks (snapshots_listed reply w))) \<and>
   (\<not> list_ex (\<lambda>d. Some (snap_name d) = snapshot w) reply \<longrightarrow>
      sent (snapshots_listed reply w) = sent w \<and>
      session_joined (snapshots_listed reply w) = session_joined w \<and>
      users (snapshots_listed reply w) = users w \<and>
      hooked (snapshots_listed reply w) = hooked w) \<and>
   (\<forall>h p b s t n c e. JoinSession h p b s t n c e \<in> set (sent (join_session w)) \<longrightarrow>
      JoinSession h p b s t n c e \<in> set (sent w))"
  by (auto simp add: snapshots_listed_def join_session_def Let_def log_msg_def send_packet_def hook_all_objects)

text \<open>
  The local snapshot is \<^verbatim>\<open>snap_v2\<close>: a reply that lists it joins at tick 5, a reply with
  \<^verbatim>\<open>snap_v1\<close> and \<^verbatim>\<open>snap_v3\<close> only sends nothing.
\<close>

theorem join_gating_witness:
  "list_ex (\<lambda>d. Some (snap_name d) = snapshot joinable_state)
     [\<lparr>snap_name = ''snap_v1''\<rparr>, \<lparr>snap_name = ''snap_v2''\<rparr>] \<and>
   sent (snapshots_listed [\<lparr>snap_name = ''snap_v1''\<rparr>, \<lparr>snap_name = ''snap_v2''\<rparr>] joinable_state) =
     [JoinSession ''10.0.0.1'' (Some ''p'') (Some ''b'') (Some ''snap_v2'') 5 ''alice'' 255 4096] \<and>
   session_joined (snapshots_listed [\<lparr>snap_name = ''snap_v1''\<rparr>, \<lparr>snap_name = ''snap_v2''\<rparr>] joinable_state) \<and>
   hooked (snapshots_listed [\<lparr>snap_name = ''snap_v1''\<rparr>, \<lparr>snap_name = ''snap_v2''\<rparr>] joinable_state) \<and>
   \<not> list_ex (\<lambda>d. Some (snap_name d) = snapshot joinable_state)
     [\<lparr>snap_name = ''snap_v1''\<rparr>, \<lparr>snap_name = ''snap_v3''\<rparr>] \<and>
   sent (snapshots_listed [\<lparr>snap_name = ''snap_v1''\<rparr>, \<lparr>snap_name = ''snap_v3''\<rparr>] joinable_state) = [] \<and>
   \<not> session_joined (snapshots_listed [\<lparr>snap_name = ''snap_v1''\<rparr>, \<lparr>snap_name = ''snap_v3''\<rparr>] joinable_state)"
  using join_gating [of joinable_state "[\<lparr>snap_name = ''snap_v1''\<rparr>, \<lparr>snap_name = ''snap_v2''\<rparr>]"]
    join_gating [of joinable_state "[\<lparr>snap_name = ''snap_v1''\<rparr>, \<lparr>snap_name = ''snap_v3''\<rparr>]"]
  by (simp add: joinable_state_def example_env_def Core_init_def)

subsection \<open>The old layout of the netnode\<close>

lemma or_zero_nonempty: "or_zero v \<noteq> []"
  by (simp add: or_zero_def split: option.splits)

lemma or_None_idem [simp]: "or_None (or_None v) = or_None v"
  by (simp add: or_None_def)

lemma truthy_or_None [simp]: "truthy (or_None v) = truthy v"
  by (simp add: or_None_def truthy_def)

lemma or_None_truthy: "truthy v \<Longrightarrow> or_None v = v"
  by (simp add: or_None_def)

lemma or_None_not_truthy: "\<not> truthy v \<Longrightarrow> or_None v = None"
  by (simp add: or_None_def)

lemma or_zero_str_of_int: "or_zero (Some (str_of_int t)) = str_of_int t"
proof -
  have "str_of_int t \<noteq> []"
    using str_of_nat_nonempty by (simp add: str_of_int_def)
  then show ?thesis by (simp add: or_zero_def)
qed

lemma py_int_zero: "py_int ''0'' = Some 0"
  by (simp add: py_int_def py_strip_def is_py_space_def read_nat_def is_digit_def digit_val_def)

lemma logged_save_netnode:
  "logged (save_netnode w) = logged w @
     [(Debug, ''Saved netnode: project=%s, binary=%s, snapshot=%s, tick=%d'',
       [AStr (project w), AStr (binary w), AStr (snapshot w), AInt (tick w)])]"
  by (simp add: save_netnode_def Let_def hashset_buf_def log_msg_def)

lemma load_netnode_plain:
  assumes "\<not> truthy (netnode w ''database'')"
    and "py_int (or_zero (netnode w ''tick'')) = Some t"
  shows "\<exists>w'. load_netnode w = Returned w' \<and> netnode w' = netnode w \<and>
     project w' = or_None (netnode w ''project'') \<and>
     binary w' = or_None (netnode w ''binary'') \<and>
     snapshot w' = or_None (netnode w ''snapshot'') \<and> tick w' = t"
  using assms by (simp add: load_netnode_def Let_def log_msg_def)

lemma loads_plain:
  assumes "\<not> truthy (netnode w ''database'')"
    and "py_int (or_zero (netnode w ''tick'')) = Some t"
  shows "netnode (run (replicate (Suc n) Load_netnode) w) = netnode w \<and>
     project (run (replicate (Suc n) Load_netnode) w) = or_None (netnode w ''project'') \<and>
     binary (run (replicate (Suc n) Load_netnode) w) = or_None (netnode w ''binary'') \<and>
     snapshot (run (replicate (Suc n) Load_netnode) w) = or_None (netnode w ''snapshot'') \<and>
     tick (run (replicate (Suc n) Load_netnode) w) = t"
  using assms
proof (induction n arbitrary: w)
  case 0
  then show ?case using load_netnode_plain [of w t] by (auto simp: run_def)
next
  case (Suc n)
  obtain w' where w': "load_netnode w = Returned w'" and n: "netnode w' = netnode w"
    using load_netnode_plain [OF Suc.prems] by blast
  have "run (replicate (Suc (Suc n)) Load_netnode) w = run (replicate (Suc n) Load_netnode) w'"
    by (simp add: run_def w')
  then show ?case using Suc.IH [of w'] Suc.prems n by simp
qed

text \<open>
  Claim C2. A netnode with a true \<^verbatim>\<open>database\<close> key is in the old layout. Loading it reads
  the project from \<^verbatim>\<open>group\<close>, the binary from \<^verbatim>\<open>project\<close>, the snapshot from
  \<^verbatim>\<open>database\<close> and the tick from \<^verbatim>\<open>tick\<close>; the old netnode is killed and the values are
  saved once (one line of the log) under the new keys, no other key remains. Every later
  load finds no \<^verbatim>\<open>database\<close> key, takes the ordinary branch and reads the same
  identifiers (and the same tick, unless it was the sentinel \<open>- 1\<close>, which is not saved)
  without writing the netnode.
\<close>

theorem legacy_migration:
  assumes db: "truthy (netnode w ''database'')"
    and t: "py_int (or_zero (netnode w ''tick'')) = Some t"
  shows "\<exists>w'. load_netnode w = Returned w' \<and>
     project w' = or_None (netnode w ''group'') \<and>
     binary w' = or_None (netnode w ''project'') \<and>
     snapshot w' = or_None (netnode w ''database'') \<and>
     tick w' = t \<and>
     (\<forall>k. netnode w' k =
        (if k = ''tick'' \<and> t \<noteq> - 1 then Some (str_of_int t)
         else if k = ''snapshot'' then or_None (netnode w ''database'')
         else if k = ''binary'' then or_None (netnode w ''project'')
         else if k = ''project'' then or_None (netnode w ''group'')
         else None)) \<and>
     logged w' = logged w @
       [(Warning, ''Old idb detected, please save your idb as a new snapshot'', []),
        (Debug, ''Saved netnode: project=%s, binary=%s, snapshot=%s, tick=%d'',
           [AStr (project w'), AStr (binary w'), AStr (snapshot w'), AInt t]),
        (Debug, ''Loaded netnode: project=%s, binary=%s, snapshot=%s, tick=%d'',
           [AStr (project w'), AStr (binary w'), AStr (snapshot w'), AInt t])] \<and>
     \<not> truthy (netnode w' ''database'') \<and>
     (\<forall>n. netnode (run (replicate (Suc n) Load_netnode) w') = netnode w' \<and>
        project (run (replicate (Suc n) Load_netnode) w') = project w' \<and>
        binary (run (replicate (Suc n) Load_netnode) w') = binary w' \<and>
        snapshot (run (replicate (Suc n) Load_netnode) w') = snapshot w' \<and>
        tick (run (replicate (Suc n) Load_netnode) w') = (if t = - 1 then 0 else t))"
proof -
  define w2 where "w2 = (log_msg Warning ''Old idb detected, please save your idb as a new snapshot'' [] w)
      \<lparr>project := or_None (netnode w ''group''), binary := or_None (netnode w ''project''),
       snapshot := or_None (netnode w ''database'')\<rparr>"
  define w3 where "w3 = save_netnode (w2\<lparr>tick := t, netnode := Map.empty\<rparr>)"
  define w' where "w' = log_msg Debug ''Loaded netnode: project=%s, binary=%s, snapshot=%s, tick=%d''
      [AStr (project w3), AStr (binary w3), AStr (snapshot w3), AInt (tick w3)] w3"
  have old: "load_netnode_old w = Returned w3"
    using t by (simp add: load_netnode_old_def Let_def w2_def w3_def log_msg_def)
  have load: "load_netnode w = Returned w'"
    using db old by (simp add: load_netnode_def w'_def)
  have f: "project w' = or_None (netnode w ''group'')" "binary w' = or_None (netnode w ''project'')"
    "snapshot w' = or_None (netnode w ''database'')" "tick w' = t"
    by (simp_all add: w'_def w3_def w2_def log_msg_def)
  have n: "netnode w' k =
        (if k = ''tick'' \<and> t \<noteq> - 1 then Some (str_of_int t)
         else if k = ''snapshot'' then or_None (netnode w ''database'')
         else if k = ''binary'' then or_None (netnode w ''project'')
         else if k = ''project'' then or_None (netnode w ''group'')
         else None)" for k
    by (simp add: w'_def w3_def netnode_save_netnode w2_def log_msg_def or_None_not_truthy)
  have l: "logged w' = logged w @
       [(Warning, ''Old idb detected, please save your idb as a new snapshot'', []),
        (Debug, ''Saved netnode: project=%s, binary=%s, snapshot=%s, tick=%d'',
           [AStr (project w'), AStr (binary w'), AStr (snapshot w'), AInt t]),
        (Debug, ''Loaded netnode: project=%s, binary=%s, snapshot=%s, tick=%d'',
           [AStr (project w'), AStr (binary w'), AStr (snapshot w'), AInt t])]"
    by (simp add: w'_def w3_def w2_def logged_save_netnode log_msg_def)
  have nodb: "\<not> truthy (netnode w' ''database'')"
    by (simp add: n truthy_def)
  have tk: "py_int (or_zero (netnode w' ''tick'')) = Some (if t = - 1 then 0 else t)"
    by (simp add: n or_zero_str_of_int py_int_str_of_int) (simp add: or_zero_def py_int_zero)
  have ids: "or_None (netnode w' ''project'') = project w'" "or_None (netnode w' ''binary'') = binary w'"
    "or_None (netnode w' ''snapshot'') = snapshot w'"
    by (simp_all add: n f)
  have again: "netnode (run (replicate (Suc n) Load_netnode) w') = netnode w' \<and>
        project (run (replicate (Suc n) Load_netnode) w') = project w' \<and>
        binary (run (replicate (Suc n) Load_netnode) w') = binary w' \<and>
        snapshot (run (replicate (Suc n) Load_netnode) w') = snapshot w' \<and>
        tick (run (replicate (Suc n) Load_netnode) w') = (if t = - 1 then 0 else t)" for n
    using loads_plain [OF nodb tk, of n] by (simp only: ids) 
  show ?thesis
    by (rule exI [of _ w']) (simp add: load f n l again truthy_def del: replicate.simps)
qed

text \<open>The netnode \<^verbatim>\<open>{group: g, project: p, database: d, tick: 5}\<close>.\<close>

theorem legacy_migration_witness:
  "truthy (netnode (example_env legacy_node) ''database'') \<and>
   py_int (or_zero (netnode (example_env legacy_node) ''tick'')) = Some 5 \<and>
   (\<exists>w'. load_netnode (example_env legacy_node) = Returned w' \<and>
      project w' = Some ''g'' \<and> binary w' = Some ''p'' \<and> snapshot w' = Some ''d'' \<and> tick w' = 5 \<and>
      netnode w' ''project'' = Some ''g'' \<and> netnode w' ''binary'' = Some ''p'' \<and>
      netnode w' ''snapshot'' = Some ''d'' \<and> netnode w' ''tick'' = Some ''5'' \<and>
      netnode w' ''group'' = None \<and> netnode w' ''database'' = None \<and>
      project (run [Load_netnode, Load_netnode] w') = Some ''g'' \<and>
      binary (run [Load_netnode, Load_netnode] w') = Some ''p'' \<and>
      snapshot (run [Load_netnode, Load_netnode] w') = Some ''d'' \<and>
      tick (run [Load_netnode, Load_netnode] w') = 5)"
proof -
  have db: "truthy (netnode (example_env legacy_node) ''database'')"
    by (simp add: example_env_def Core_init_def legacy_node_def truthy_def)
  have t: "py_int (or_zero (netnode (example_env legacy_node) ''tick'')) = Some 5"
    by (simp add: example_env_def Core_init_def legacy_node_def or_zero_def py_int_def py_strip_def
        is_py_space_def read_nat_def is_digit_def digit_val_def)
  have five: "str_of_int 5 = ''5''"
    by (simp add: str_of_int_def str_of_nat.simps [of 5] digit_char_def) code_simp
  have g: "or_None (netnode (example_env legacy_node) ''group'') = Some ''g''"
    "or_None (netnode (example_env legacy_node) ''project'') = Some ''p''"
    "or_None (netnode (example_env legacy_node) ''database'') = Some ''d''"
    by (simp_all add: example_env_def Core_init_def legacy_node_def or_None_def truthy_def)
  obtain w' where l: "load_netnode (example_env legacy_node) = Returned w'"
    and f: "project w' = Some ''g''" "binary w' = Some ''p''" "snapshot w' = Some ''d''" "tick w' = 5"
    and n: "\<forall>k. netnode w' k =
        (if k = ''tick'' \<and> (5::int) \<noteq> - 1 then Some (str_of_int 5)
         else if k = ''snapshot'' then Some ''d''
         else if k = ''binary'' then Some ''p''
         else if k = ''project'' then Some ''g''
         else None)"
    and a: "\<forall>n. netnode (run (replicate (Suc n) Load_netnode) w') = netnode w' \<and>
        project (run (replicate (Suc n) Load_netnode) w') = project w' \<and>
        binary (run (replicate (Suc n) Load_netnode) w') = binary w' \<and>
        snapshot (run (replicate (Suc n) Load_netnode) w') = snapshot w' \<and>
        tick (run (replicate (Suc n) Load_netnode) w') = (if (5::int) = - 1 then 0 else 5)"
    using legacy_migration [OF db t] unfolding g by blast
  have two: "replicate (Suc (Suc 0)) Load_netnode = [Load_netnode, Load_netnode]" by simp
  have a2: "project (run [Load_netnode, Load_netnode] w') = Some ''g''"
    "binary (run [Load_netnode, Load_netnode] w') = Some ''p''"
    "snapshot (run [Load_netnode, Load_netnode] w') = Some ''d''"
    "tick (run [Load_netnode, Load_netnode] w') = 5"
    using a [rule_format, of "Suc 0"] f unfolding two by simp_all
  show ?thesis
    by (intro conjI exI [of _ w']) (simp_all add: db t l f n a2 five)
qed

subsection \<open>Leaving and closing\<close>

lemma unhook_all_fields [simp]:
  "\<not> hooked (unhook_all w)" "sent (unhook_all w) = sent w" "session_joined (unhook_all w) = session_joined w"
  "users (unhook_all w) = users w" "tick (unhook_all w) = tick w"
  "project (unhook_all w) = project w" "binary (unhook_all w) = binary w" "snapshot (unhook_all w) = snapshot w"
  "netnode (unhook_all w) = netnode w"
  by (simp_all add: unhook_all_def log_msg_def)

lemma hook_all_env [simp]:
  "host_id (hook_all w) = host_id w" "cfg_name (hook_all w) = cfg_name w"
  by (simp_all add: hook_all_def update_local_types_map_def log_msg_def)

lemma leave_session_fields [simp]:
  "\<not> session_joined (leave_session w)" "tick (leave_session w) = tick w"
  "project (leave_session w) = project w" "binary (leave_session w) = binary w"
  "snapshot (leave_session w) = snapshot w" "netnode (leave_session w) = netnode w"
  by (simp_all add: leave_session_def Let_def log_msg_def send_packet_def)

lemma leave_session_joined:
  "session_joined w \<Longrightarrow> truthy (project w) \<and> truthy (binary w) \<and> truthy (snapshot w) \<Longrightarrow>
   sent (leave_session w) = sent w @ [LeaveSession (host_id w) (cfg_name w)] \<and>
   users (leave_session w) = Map.empty \<and> \<not> hooked (leave_session w)"
  by (simp add: leave_session_def Let_def log_msg_def send_packet_def)

lemma leave_session_missing:
  "session_joined w \<Longrightarrow> \<not> (truthy (project w) \<and> truthy (binary w) \<and> truthy (snapshot w)) \<Longrightarrow>
   sent (leave_session w) = sent w \<and> users (leave_session w) = users w \<and>
   hooked (leave_session w) = hooked w"
  by (auto simp add: leave_session_def Let_def log_msg_def send_packet_def)

lemma leave_session_not_joined:
  "\<not> session_joined w \<Longrightarrow>
   sent (leave_session w) = sent w \<and> users (leave_session w) = users w \<and>
   hooked (leave_session w) = hooked w"
  by (simp add: leave_session_def log_msg_def)

lemma log_msg_fields [simp]:
  "session_joined (log_msg l m a w) = session_joined w" "tick (log_msg l m a w) = tick w"
  "project (log_msg l m a w) = project w" "binary (log_msg l m a w) = binary w"
  "snapshot (log_msg l m a w) = snapshot w" "netnode (log_msg l m a w) = netnode w"
  "sent (log_msg l m a w) = sent w" "users (log_msg l m a w) = users w"
  "hooked (log_msg l m a w) = hooked w" "host_id (log_msg l m a w) = host_id w"
  "cfg_name (log_msg l m a w) = cfg_name w"
  by (simp_all add: log_msg_def)

lemma setter_fields [simp]:
  "project (set_project v w) = v" "binary (set_project v w) = binary w" "snapshot (set_project v w) = snapshot w"
  "project (set_binary v w) = project w" "binary (set_binary v w) = v" "snapshot (set_binary v w) = snapshot w"
  "project (set_snapshot v w) = project w" "binary (set_snapshot v w) = binary w" "snapshot (set_snapshot v w) = v"
  "tick (set_project v w) = tick w" "tick (set_binary v w) = tick w" "tick (set_snapshot v w) = tick w"
  "session_joined (set_project v w) = session_joined w" "session_joined (set_binary v w) = session_joined w"
  "session_joined (set_snapshot v w) = session_joined w"
  "hooked (set_project v w) = hooked w" "hooked (set_binary v w) = hooked w" "hooked (set_snapshot v w) = hooked w"
  "sent (set_project v w) = sent w" "sent (set_binary v w) = sent w" "sent (set_snapshot v w) = sent w"
  "users (set_project v w) = users w" "users (set_binary v w) = users w" "users (set_snapshot v w) = users w"
  by (simp_all add: set_project_def set_binary_def set_snapshot_def)

lemma netnode_unset:
  "netnode (set_snapshot None (set_binary None (set_project None w))) k =
     (if k = ''tick'' \<and> tick w \<noteq> - 1 then Some (str_of_int (tick w))
      else if k = ''snapshot'' \<and> truthy (snapshot w) then snapshot w
      else if k = ''binary'' \<and> truthy (binary w) then binary w
      else netnode w k)"
  by (simp add: set_project_def set_binary_def set_snapshot_def netnode_save_netnode truthy_def)

lemma closebase_fields:
  "project (closebase w) = None" "binary (closebase w) = None" "snapshot (closebase w) = None"
  "\<not> session_joined (closebase w)" "tick (closebase w) = tick w" "ticks (closebase w) = Some 0"
  "sent (closebase w) = sent (leave_session (log_msg Trace ''Closebase hook'' [] w))"
  "users (closebase w) = users (leave_session (log_msg Trace ''Closebase hook'' [] w))"
  "hooked (closebase w) = hooked (leave_session (log_msg Trace ''Closebase hook'' [] w))"
  by (simp_all add: closebase_def Let_def)

lemma netnode_closebase:
  "netnode (closebase w) k =
     (if k = ''tick'' \<and> tick w \<noteq> - 1 then Some (str_of_int (tick w))
      else if k = ''snapshot'' \<and> truthy (snapshot w) then snapshot w
      else if k = ''binary'' \<and> truthy (binary w) then binary w
      else if k = ''project'' \<and> truthy (project w) then project w
      else netnode w k)"
  by (simp add: closebase_def Let_def netnode_unset netnode_save_netnode)

text \<open>
  Claim C4, as the code has it. Closing the dataset leaves the session: the joined flag is
  false afterwards; if a session was joined and the three identifiers were set, a
  \<^verbatim>\<open>LeaveSession\<close> packet is sent, the roster is emptied and the hooks are removed; if no
  session was joined nothing is sent and roster and hooks stay. The fields project,
  binary and snapshot of the core are \<^verbatim>\<open>None\<close> afterwards. The netnode keeps the
  identifiers: each key holds the field's value from before the close when that was set,
  and its old value otherwise. Leaving without closing does not write the netnode.
\<close>

theorem closebase_teardown:
  "\<not> session_joined (closebase w) \<and>
   project (closebase w) = None \<and> binary (closebase w) = None \<and> snapshot (closebase w) = None \<and>
   (session_joined w \<and> truthy (project w) \<and> truthy (binary w) \<and> truthy (snapshot w) \<longrightarrow>
      sent (closebase w) = sent w @ [LeaveSession (host_id w) (cfg_name w)] \<and>
      users (closebase w) = Map.empty \<and> \<not> hooked (closebase w)) \<and>
   (\<not> session_joined w \<longrightarrow>
      sent (closebase w) = sent w \<and> users (closebase w) = users w \<and>
      hooked (closebase w) = hooked w) \<and>
   netnode (closebase w) ''project'' = (if truthy (project w) then project w else netnode w ''project'') \<and>
   netnode (closebase w) ''binary'' = (if truthy (binary w) then binary w else netnode w ''binary'') \<and>
   netnode (closebase w) ''snapshot'' = (if truthy (snapshot w) then snapshot w else netnode w ''snapshot'') \<and>
   netnode (leave_session w) = netnode w"
proof -
  let ?w1 = "log_msg Trace ''Closebase hook'' [] w"
  have j: "session_joined w \<and> truthy (project w) \<and> truthy (binary w) \<and> truthy (snapshot w) \<longrightarrow>
      sent (closebase w) = sent w @ [LeaveSession (host_id w) (cfg_name w)] \<and>
      users (closebase w) = Map.empty \<and> \<not> hooked (closebase w)"
    using leave_session_joined [of ?w1] by (simp add: closebase_fields)
  have n: "\<not> session_joined w \<longrightarrow>
      sent (closebase w) = sent w \<and> users (closebase w) = users w \<and>
      hooked (closebase w) = hooked w"
    using leave_session_not_joined [of ?w1] by (simp add: closebase_fields)
  show ?thesis
    using j n by (simp add: closebase_fields netnode_closebase)
qed

lemma str_of_int_5: "str_of_int 5 = ''5''"
  by (simp add: str_of_int_def str_of_nat.simps [of 5] digit_char_def) code_simp

lemma joined_state_fields:
  "session_joined joined_state" "project joined_state = Some ''p''" "binary joined_state = Some ''b''"
  "snapshot joined_state = Some ''snap_v2''" "tick joined_state = 5" "hooked joined_state"
  "netnode joined_state = plain_node" "host_id joined_state = ''10.0.0.1''"
  "cfg_name joined_state = ''alice''"
  "sent joined_state = [JoinSession ''10.0.0.1'' (Some ''p'') (Some ''b'') (Some ''snap_v2'') 5 ''alice'' 255 4096]"
  by (simp_all add: joined_state_def joinable_state_def snapshots_listed_def Let_def example_env_def
      Core_init_def send_packet_def log_msg_def)

text \<open>
  Claim C4 as stated fails: after joining \<^verbatim>\<open>(p, b, snap_v2)\<close> at tick 5 and closing, the
  netnode still holds the three identifiers and the tick, and the tick of the core is
  still 5; the zero went to the attribute \<^verbatim>\<open>ticks\<close>.
\<close>

theorem closebase_keeps_persisted_state:
  "session_joined joined_state \<and>
   netnode (closebase joined_state) ''project'' = Some ''p'' \<and>
   netnode (closebase joined_state) ''binary'' = Some ''b'' \<and>
   netnode (closebase joined_state) ''snapshot'' = Some ''snap_v2'' \<and>
   netnode (closebase joined_state) ''tick'' = Some ''5'' \<and>
   tick (closebase joined_state) = 5 \<and> ticks (closebase joined_state) = Some 0"
  by (simp add: netnode_closebase closebase_fields joined_state_fields truthy_def str_of_int_5)

text \<open>The same close, read through the theorem.\<close>

theorem closebase_teardown_witness:
  "session_joined joined_state \<and> truthy (project joined_state) \<and> truthy (binary joined_state) \<and>
   truthy (snapshot joined_state) \<and>
   sent (closebase joined_state) =
     [JoinSession ''10.0.0.1'' (Some ''p'') (Some ''b'') (Some ''snap_v2'') 5 ''alice'' 255 4096,
      LeaveSession ''10.0.0.1'' ''alice''] \<and>
   users (closebase joined_state) = Map.empty \<and> \<not> hooked (closebase joined_state) \<and>
   \<not> session_joined (closebase joined_state) \<and> project (closebase joined_state) = None \<and>
   netnode (closebase joined_state) ''snapshot'' = Some ''snap_v2''"
  using closebase_teardown [of joined_state]
  by (simp add: joined_state_fields truthy_def)

subsection \<open>Hooks and the joined flag along a run\<close>

lemma py_int_5: "py_int ''5'' = Some 5"
  by (simp add: py_int_def py_strip_def is_py_space_def read_nat_def is_digit_def digit_val_def)

text \<open>
  Claim C3 fails on the code. From the initial state: load the netnode, join, receive a
  reply that lists the snapshot (the hooks are installed now), assign \<^verbatim>\<open>None\<close> to the
  project. Then \<^verbatim>\<open>join_session\<close> takes its last branch and clears the joined flag, and
  so does \<^verbatim>\<open>leave_session\<close>, whose test of the identifiers skips \<^verbatim>\<open>unhook_all\<close>: the
  hooks stay installed while no session is joined.
\<close>

theorem capture_without_session:
  "hooked (run [Load_netnode, Join_session, Snapshots_listed [\<lparr>snap_name = ''snap_v2''\<rparr>],
                Set_project None, Join_session] (example_env plain_node)) \<and>
   \<not> session_joined (run [Load_netnode, Join_session, Snapshots_listed [\<lparr>snap_name = ''snap_v2''\<rparr>],
                Set_project None, Join_session] (example_env plain_node)) \<and>
   hooked (run [Load_netnode, Join_session, Snapshots_listed [\<lparr>snap_name = ''snap_v2''\<rparr>],
                Set_project None, Leave_session] (example_env plain_node)) \<and>
   \<not> session_joined (run [Load_netnode, Join_session, Snapshots_listed [\<lparr>snap_name = ''snap_v2''\<rparr>],
                Set_project None, Leave_session] (example_env plain_node))"
proof -
  let ?w0 = "example_env plain_node"
  obtain w1 where w1: "load_netnode ?w0 = Returned w1"
    and f1: "project w1 = Some ''p''" "binary w1 = Some ''b''" "snapshot w1 = Some ''snap_v2''"
      "session_joined w1 = False" "hooked w1 = False" "deferred w1" "callbacks w1 = 0"
    by (simp add: load_netnode_def example_env_def Core_init_def plain_node_def truthy_def or_None_def
        or_zero_def py_int_5 Let_def log_msg_def)
  define w2 where "w2 = join_session w1"
  have f2: "snapshot w2 = Some ''snap_v2''" "callbacks w2 = 1" "hooked w2 = False"
    by (simp_all add: w2_def join_session_def f1 truthy_def Let_def send_packet_def log_msg_def)
  define w3 where "w3 = step (Snapshots_listed [\<lparr>snap_name = ''snap_v2''\<rparr>]) w2"
  have f3: "hooked w3" "session_joined w3"
    by (simp_all add: w3_def f2 snapshots_listed_def Let_def)
  define w4 where "w4 = set_project None w3"
  have f4: "hooked w4" "session_joined w4" "project w4 = None"
    by (simp_all add: w4_def f3)
  have a: "hooked (join_session w4) \<and> \<not> session_joined (join_session w4)"
    by (simp add: join_session_def f4 truthy_def)
  have b: "hooked (leave_session w4) \<and> \<not> session_joined (leave_session w4)"
    using leave_session_missing [of w4] by (simp add: f4 truthy_def)
  show ?thesis
    using a b by (simp add: run_def w1 w2_def w3_def w4_def)
qed

section \<open>Properties of the replay\<close>

subsection \<open>Range comments\<close>

lemma host_call_calls [simp]: "calls (replay_of (host_call h c r)) = calls r @ [c]"
  by (simp add: host_call_def split: option.splits)

lemma host_call_printed [simp]: "printed (replay_of (host_call h c r)) = printed r"
  by (simp add: host_call_def split: option.splits)

lemma refresh_widgets_calls:
  "\<exists>rest. calls (replay_of (refresh_widgets h a names r)) = calls r @ rest \<and>
      (\<forall>c \<in> set rest. \<exists>w. c = refresh_view w False)"
proof (induction names arbitrary: r)
  case Nil
  then show ?case by simp
next
  case (Cons name names)
  show ?case
  proof (cases "find_widget h name")
    case None
    then show ?thesis using Cons.IH [of r] by simp
  next
    case (Some widget)
    show ?thesis
    proof (cases "widget_entry_ea h widget")
      case None
      then show ?thesis using Some by simp
    next
      case (Some func_ea)
      note fe = this
      show ?thesis
      proof (cases "func_contains h (get_func h func_ea) a")
        case False
        then show ?thesis using Cons.IH [of r] fe \<open>find_widget h name = Some widget\<close> by simp
      next
        case True
        show ?thesis
        proof (cases "host_call h (refresh_view widget False) r")
          case (Applied r')
          then have c: "calls r' = calls r @ [refresh_view widget False]"
            using host_call_calls [of h "refresh_view widget False" r] by simp
          obtain rest where "calls (replay_of (refresh_widgets h a names r')) = calls r' @ rest"
            and "\<forall>c \<in> set rest. \<exists>w. c = refresh_view w False"
            using Cons.IH [of r'] by blast
          then have "calls (replay_of (refresh_widgets h a names r')) =
              calls r @ (refresh_view widget False # rest) \<and>
              (\<forall>c \<in> set (refresh_view widget False # rest). \<exists>w. c = refresh_view w False)"
            using c by simp
          then show ?thesis
            using True fe \<open>find_widget h name = Some widget\<close> Applied by simp
        next
          case (Raising e r')
          then have c: "calls r' = calls r @ [refresh_view widget False]"
            using host_call_calls [of h "refresh_view widget False" r] by simp
          then show ?thesis
            using True fe \<open>find_widget h name = Some widget\<close> Raising by simp
        qed
      qed
    qed
  qed
qed

text \<open>
  Claim C7. Applying a range-comment event whose kind is the function kind calls
  \<^verbatim>\<open>set_func_cmt\<close> on the function at the start address, and after it only refreshes
  pseudocode views; with the segment kind it calls \<^verbatim>\<open>set_segment_cmt\<close> on the segment
  there, and after it only requests the refresh of the segments window; with any other
  kind it raises and calls nothing. The two kinds are the host's constants, which differ.
\<close>

theorem range_kind_dispatch:
  assumes "RANGE_KIND_FUNC h \<noteq> RANGE_KIND_SEGMENT h"
  shows
    "(kind ev = RANGE_KIND_FUNC h \<longrightarrow>
        (\<exists>rest. calls (replay_of (RangeCmtChangedEvent_call h ev r)) =
           calls r @ set_func_cmt (get_func h (start_ea ev)) (cmt ev) (rptble ev) # rest \<and>
           (\<forall>c \<in> set rest. \<exists>w. c = refresh_view w False))) \<and>
     (kind ev = RANGE_KIND_SEGMENT h \<longrightarrow>
        (\<exists>rest. calls (replay_of (RangeCmtChangedEvent_call h ev r)) =
           calls r @ set_segment_cmt (getseg h (start_ea ev)) (cmt ev) (rptble ev) # rest \<and>
           (\<forall>c \<in> set rest. c = request_refresh IWID_SEGS))) \<and>
     (kind ev \<noteq> RANGE_KIND_FUNC h \<and> kind ev \<noteq> RANGE_KIND_SEGMENT h \<longrightarrow>
        RangeCmtChangedEvent_call h ev r =
          Raising (Exception (''Unsupported range kind: '' @ str_of_int (kind ev))) r)"
proof (intro conjI impI)
  assume k: "kind ev = RANGE_KIND_FUNC h"
  let ?c = "set_func_cmt (get_func h (start_ea ev)) (cmt ev) (rptble ev)"
  show "\<exists>rest. calls (replay_of (RangeCmtChangedEvent_call h ev r)) = calls r @ ?c # rest \<and>
           (\<forall>c \<in> set rest. \<exists>w. c = refresh_view w False)"
  proof (cases "host_call h ?c r")
    case (Applied r')
    then have c: "calls r' = calls r @ [?c]" using host_call_calls [of h ?c r] by simp
    obtain rest where "calls (replay_of (refresh_widgets h (start_ea ev) pseudocode_names r')) = calls r' @ rest"
      and "\<forall>c \<in> set rest. \<exists>w. c = refresh_view w False"
      using refresh_widgets_calls [of h "start_ea ev" pseudocode_names r'] by blast
    then show ?thesis
      using k Applied c by (simp add: RangeCmtChangedEvent_call_def refresh_pseudocode_view_def)
  next
    case (Raising e r')
    then have c: "calls r' = calls r @ [?c]" using host_call_calls [of h ?c r] by simp
    then show ?thesis
      using k Raising by (simp add: RangeCmtChangedEvent_call_def)
  qed
next
  assume k: "kind ev = RANGE_KIND_SEGMENT h"
  then have nk: "kind ev \<noteq> RANGE_KIND_FUNC h" using assms by simp
  let ?c = "set_segment_cmt (getseg h (start_ea ev)) (cmt ev) (rptble ev)"
  show "\<exists>rest. calls (replay_of (RangeCmtChangedEvent_call h ev r)) = calls r @ ?c # rest \<and>
           (\<forall>c \<in> set rest. c = request_refresh IWID_SEGS)"
  proof (cases "host_call h ?c r")
    case (Applied r')
    then have c: "calls r' = calls r @ [?c]" using host_call_calls [of h ?c r] by simp
    then show ?thesis
      using k nk Applied by (simp add: RangeCmtChangedEvent_call_def)
  next
    case (Raising e r')
    then have c: "calls r' = calls r @ [?c]" using host_call_calls [of h ?c r] by simp
    then show ?thesis
      using k nk Raising by (simp add: RangeCmtChangedEvent_call_def)
  qed
next
  assume "kind ev \<noteq> RANGE_KIND_FUNC h \<and> kind ev \<noteq> RANGE_KIND_SEGMENT h"
  then show "RangeCmtChangedEvent_call h ev r =
          Raising (Exception (''Unsupported range kind: '' @ str_of_int (kind ev))) r"
    by (simp add: RangeCmtChangedEvent_call_def)
qed

lemma str_of_int_3: "str_of_int 3 = ''3''"
  by (simp add: str_of_int_def str_of_nat.simps [of 3] digit_char_def char_of_def bit_Suc_0_iff)

lemma pseudocode_names_eval:
  "pseudocode_names = [''Pseudocode-A'', ''Pseudocode-B'', ''Pseudocode-C'', ''Pseudocode-D'', ''Pseudocode-E'']"
  by (simp add: pseudocode_names_def upt_rec char_of_def bit_Suc_0_iff)

text \<open>Kinds 1 (function), 2 (segment) and 3.\<close>

theorem range_kind_dispatch_witness:
  "RANGE_KIND_FUNC (example_ida no_failure) \<noteq> RANGE_KIND_SEGMENT (example_ida no_failure) \<and>
   calls (replay_of (RangeCmtChangedEvent_call (example_ida no_failure) (range_event 1) empty_replay)) =
     [set_func_cmt (Some 7) ''note'' True, refresh_view 1 False] \<and>
   calls (replay_of (RangeCmtChangedEvent_call (example_ida no_failure) (range_event 2) empty_replay)) =
     [set_segment_cmt (Some 3) ''note'' True, request_refresh IWID_SEGS] \<and>
   RangeCmtChangedEvent_call (example_ida no_failure) (range_event 3) empty_replay =
     Raising (Exception ''Unsupported range kind: 3'') empty_replay"
proof -
  have d: "RANGE_KIND_FUNC (example_ida no_failure) \<noteq> RANGE_KIND_SEGMENT (example_ida no_failure)"
    by (simp add: example_ida_def)
  have f: "calls (replay_of (RangeCmtChangedEvent_call (example_ida no_failure) (range_event 1) empty_replay)) =
     [set_func_cmt (Some 7) ''note'' True, refresh_view 1 False]"
    by (simp add: RangeCmtChangedEvent_call_def refresh_pseudocode_view_def pseudocode_names_eval
        example_ida_def range_event_def empty_replay_def host_call_def no_failure_def)
  have s: "calls (replay_of (RangeCmtChangedEvent_call (example_ida no_failure) (range_event 2) empty_replay)) =
     [set_segment_cmt (Some 3) ''note'' True, request_refresh IWID_SEGS]"
    by (simp add: RangeCmtChangedEvent_call_def example_ida_def range_event_def empty_replay_def
        host_call_def no_failure_def)
  have k: "kind (range_event 3) \<noteq> RANGE_KIND_FUNC (example_ida no_failure) \<and>
      kind (range_event 3) \<noteq> RANGE_KIND_SEGMENT (example_ida no_failure)"
    by (simp add: example_ida_def range_event_def)
  have "RangeCmtChangedEvent_call (example_ida no_failure) (range_event 3) empty_replay =
     Raising (Exception (''Unsupported range kind: '' @ str_of_int (kind (range_event 3)))) empty_replay"
    using range_kind_dispatch [OF d, of "range_event 3" empty_replay] k by blast
  then show ?thesis
    using d f s by (simp add: range_event_def str_of_int_3)
qed

subsection \<open>Fields missing from older events\<close>

lemma get_member_type_tid_default:
  assumes "extra ''tid'' = None"
  shows "get_member_type h type_flag extra = get_member_type h type_flag (extra(''tid'' \<mapsto> PInt 0))"
proof -
  have i: "item (extra(''tid'' \<mapsto> PInt 0)) k = item extra k" if "k \<noteq> ''tid''" for k
    using that by (simp add: item_def)
  have d: "get_default (extra(''tid'' \<mapsto> PInt 0)) ''tid'' (PInt 0) = get_default extra ''tid'' (PInt 0)"
    using assms by (simp add: get_default_def)
  have "set_struct_tid h type_flag (extra(''tid'' \<mapsto> PInt 0)) = set_struct_tid h type_flag extra"
    "set_refinfo h type_flag (extra(''tid'' \<mapsto> PInt 0)) = set_refinfo h type_flag extra"
    "set_enum_const h type_flag (extra(''tid'' \<mapsto> PInt 0)) = set_enum_const h type_flag extra"
    "set_strtype h type_flag (extra(''tid'' \<mapsto> PInt 0)) = set_strtype h type_flag extra"
    by (simp_all add: set_struct_tid_def set_refinfo_def set_enum_const_def set_strtype_def i d fun_eq_iff)
  then show ?thesis by (simp add: get_member_type_def)
qed

lemma set_strtype_ec_tid:
  "set_strtype h f extra mt = Inr mt' \<Longrightarrow> ec_tid mt' = ec_tid mt"
  by (auto simp: set_strtype_def bind_m_def item_def split: if_splits option.splits)

lemma set_enum_const_ec_tid:
  "f AND enum_flag h \<noteq> 0 \<Longrightarrow> set_enum_const h f extra mt = Inr mt' \<Longrightarrow>
   ec_tid mt' = Some (get_default extra ''tid'' (PInt 0))"
  by (auto simp: set_enum_const_def bind_m_def item_def split: option.splits)

lemma get_member_type_ec_tid:
  assumes "f AND enum_flag h \<noteq> 0" "get_member_type h f extra = Inr mt"
  shows "ec_tid mt = Some (get_default extra ''tid'' (PInt 0))"
proof -
  from assms(2) obtain mt2 mt3 where
    "set_enum_const h f extra mt2 = Inr mt3" "set_strtype h f extra mt3 = Inr mt"
    by (auto simp: get_member_type_def bind_m_def split: sum.splits)
  then show ?thesis
    using set_enum_const_ec_tid [OF assms(1)] set_strtype_ec_tid by metis
qed

text \<open>
  Claim C6. A segment-deleted event without the attribute \<^verbatim>\<open>flags\<close> is applied as the
  same event with flags 0: the attribute becomes 0 and \<^verbatim>\<open>del_segm\<close> is called with
  \<^verbatim>\<open>0 | SEGMOD_SILENT\<close>. A record \<^verbatim>\<open>extra\<close> without the entry \<^verbatim>\<open>tid\<close> gives the member
  type that the record with \<^verbatim>\<open>tid\<close> 0 gives, and when the flag word has an enum bit its
  enum descriptor has tid 0.
\<close>

theorem missing_optional_fields:
  "SegmDeletedEvent_call h (ev\<lparr>flags := None\<rparr>) r = SegmDeletedEvent_call h (ev\<lparr>flags := Some 0\<rparr>) r \<and>
   flags (fst (SegmDeletedEvent_call h (ev\<lparr>flags := None\<rparr>) r)) = Some 0 \<and>
   calls (replay_of (snd (SegmDeletedEvent_call h (ev\<lparr>flags := None\<rparr>) r))) =
     calls r @ [del_segm (ea ev) (0 OR SEGMOD_SILENT h)] \<and>
   (extra ''tid'' = None \<longrightarrow>
      get_member_type h type_flag extra = get_member_type h type_flag (extra(''tid'' \<mapsto> PInt 0))) \<and>
   (extra ''tid'' = None \<longrightarrow> type_flag AND enum_flag h \<noteq> 0 \<longrightarrow>
      (\<forall>mt. get_member_type h type_flag extra = Inr mt \<longrightarrow> ec_tid mt = Some (PInt 0)))"
proof -
  have a: "SegmDeletedEvent_call h (ev\<lparr>flags := None\<rparr>) r = SegmDeletedEvent_call h (ev\<lparr>flags := Some 0\<rparr>) r"
    by (simp add: SegmDeletedEvent_call_def)
  have b: "flags (fst (SegmDeletedEvent_call h (ev\<lparr>flags := None\<rparr>) r)) = Some 0"
    by (simp add: SegmDeletedEvent_call_def)
  have c: "calls (replay_of (snd (SegmDeletedEvent_call h (ev\<lparr>flags := None\<rparr>) r))) =
     calls r @ [del_segm (ea ev) (0 OR SEGMOD_SILENT h)]"
    by (simp add: SegmDeletedEvent_call_def)
  have d: "extra ''tid'' = None \<longrightarrow>
      get_member_type h type_flag extra = get_member_type h type_flag (extra(''tid'' \<mapsto> PInt 0))"
    using get_member_type_tid_default by blast
  have e: "extra ''tid'' = None \<longrightarrow> type_flag AND enum_flag h \<noteq> 0 \<longrightarrow>
      (\<forall>mt. get_member_type h type_flag extra = Inr mt \<longrightarrow> ec_tid mt = Some (PInt 0))"
    using get_member_type_ec_tid [of type_flag h extra] by (simp add: get_default_def)
  show ?thesis using a b c d e by blast
qed

text \<open>An enum member with serial 2 and no tid; a segment event without flags.\<close>

theorem missing_optional_fields_witness:
  "enum_extra ''tid'' = None \<and> (0x800000 :: int) AND enum_flag (example_ida no_failure) \<noteq> 0 \<and>
   get_member_type (example_ida no_failure) 0x800000 enum_extra =
     Inr \<lparr>tid = None, ri = None, ec_serial = Some (PInt 2), ec_tid = Some (PInt 0), strtype = None\<rparr> \<and>
   get_member_type (example_ida no_failure) 0x800000 (enum_extra(''tid'' \<mapsto> PInt 0)) =
     Inr \<lparr>tid = None, ri = None, ec_serial = Some (PInt 2), ec_tid = Some (PInt 0), strtype = None\<rparr> \<and>
   calls (replay_of (snd (SegmDeletedEvent_call (example_ida no_failure) \<lparr>ea = 4096, flags = None\<rparr> empty_replay))) =
     [del_segm 4096 4]"
proof -
  have t: "enum_extra ''tid'' = None" by (simp add: enum_extra_def)
  have b: "(0x800000 :: int) AND enum_flag (example_ida no_failure) \<noteq> 0"
    by (simp add: example_ida_def)
  have g: "get_member_type (example_ida no_failure) 0x800000 enum_extra =
     Inr \<lparr>tid = None, ri = None, ec_serial = Some (PInt 2), ec_tid = Some (PInt 0), strtype = None\<rparr>"
    by (simp add: get_member_type_def set_struct_tid_def set_refinfo_def set_enum_const_def
        set_strtype_def bind_m_def item_def get_default_def enum_extra_def example_ida_def)
  have "calls (replay_of (snd (SegmDeletedEvent_call (example_ida no_failure)
            (\<lparr>ea = 4096, flags = None\<rparr>\<lparr>flags := None\<rparr>) empty_replay))) =
     calls empty_replay @ [del_segm (ea \<lparr>ea = 4096, flags = None\<rparr>) (0 OR SEGMOD_SILENT (example_ida no_failure))]"
    using missing_optional_fields [of "example_ida no_failure" "\<lparr>ea = 4096, flags = None\<rparr>" empty_replay]
    by blast
  then have c: "calls (replay_of (snd (SegmDeletedEvent_call (example_ida no_failure) \<lparr>ea = 4096, flags = None\<rparr> empty_replay))) =
     [del_segm 4096 4]"
    by (simp add: empty_replay_def example_ida_def)
  have "get_member_type (example_ida no_failure) 0x800000 enum_extra =
      get_member_type (example_ida no_failure) 0x800000 (enum_extra(''tid'' \<mapsto> PInt 0))"
    using missing_optional_fields [of "example_ida no_failure" _ _ enum_extra "0x800000"] t by blast
  then show ?thesis using t b g c by simp
qed

subsection \<open>Local types\<close>

lemma apply_local_type_calls:
  "calls (replay_of (apply_local_type h old new r)) = calls r @ policy (old, new)"
  by (cases old; cases new)
     (simp_all add: apply_local_type_def new_local_type_def Let_def split: option.splits)

lemma apply_local_type_printed:
  "printed (replay_of (apply_local_type h old new r)) = printed r"
  by (cases old; cases new)
     (simp_all add: apply_local_type_def Let_def split: option.splits)

lemma apply_pair_calls: "calls (apply_pair h p r) = calls r @ policy p"
proof -
  let ?r1 = "r\<lparr>printed := printed r @ [Callback_line (fst p) (snd p)]\<rparr>"
  have "calls (replay_of (apply_local_type h (fst p) (snd p) ?r1)) = calls r @ policy p"
    using apply_local_type_calls [of h "fst p" "snd p" ?r1] by simp
  then show ?thesis
    by (cases "apply_local_type h (fst p) (snd p) ?r1") (simp_all add: apply_pair_def)
qed

lemma fold_apply_pair_calls:
  "calls (fold (apply_pair h) ps r) = calls r @ concat (map policy ps)"
  by (induction ps arbitrary: r) (simp_all add: apply_pair_calls)

lemma apply_pair_printed:
  "printed (apply_pair h p r) =
     printed r @ Callback_line (fst p) (snd p) #
       (case apply_local_type h (fst p) (snd p)
               (r\<lparr>printed := printed r @ [Callback_line (fst p) (snd p)]\<rparr>) of
          Applied r' \<Rightarrow> []
        | Raising e r' \<Rightarrow> [Failed_line e (fst p) (snd p)])"
proof -
  let ?r1 = "r\<lparr>printed := printed r @ [Callback_line (fst p) (snd p)]\<rparr>"
  have "printed (replay_of (apply_local_type h (fst p) (snd p) ?r1)) =
      printed r @ [Callback_line (fst p) (snd p)]"
    using apply_local_type_printed [of h "fst p" "snd p" ?r1] by simp
  then show ?thesis
    by (cases "apply_local_type h (fst p) (snd p) ?r1") (simp_all add: apply_pair_def)
qed

text \<open>
  Claim C5. Applying a local-types event calls the host once for each pair, in the order
  of the list, with the call that the policy gives for the pair (delete for an old tuple
  alone, insert with replace for a new tuple alone, edit in place for both), and then
  requests the refresh; this holds whichever of the calls raise. Each turn of the loop
  starts from the state the turn before left, raised or not. A turn whose body raises
  prints the failure after its first line, and one whose body returns prints no failure.
\<close>

theorem local_types_replay:
  "calls (replay_of (LocalTypesChangedEvent_call h ev r)) =
     calls r @ concat (map policy (local_types ev)) @ [request_refresh IWID_LOCTYPS] \<and>
   fold (apply_pair h) (p # ps) r = fold (apply_pair h) ps (apply_pair h p r) \<and>
   calls (apply_pair h p r) = calls r @ policy p \<and>
   (\<forall>e r'. apply_local_type h (fst p) (snd p)
              (r\<lparr>printed := printed r @ [Callback_line (fst p) (snd p)]\<rparr>) = Raising e r' \<longrightarrow>
      printed (apply_pair h p r) =
        printed r @ [Callback_line (fst p) (snd p), Failed_line e (fst p) (snd p)]) \<and>
   (\<forall>r'. apply_local_type h (fst p) (snd p)
              (r\<lparr>printed := printed r @ [Callback_line (fst p) (snd p)]\<rparr>) = Applied r' \<longrightarrow>
      printed (apply_pair h p r) = printed r @ [Callback_line (fst p) (snd p)])"
  by (simp add: LocalTypesChangedEvent_call_def fold_apply_pair_calls apply_pair_calls
      apply_pair_printed)

text \<open>
  Three pairs, on a host where deleting a type raises: the insert before and the edit
  after the failing delete are made, and the failure is printed once.
\<close>

theorem local_types_replay_witness:
  "calls (replay_of (LocalTypesChangedEvent_call (example_ida delete_fails) three_pairs empty_replay)) =
     [InsertType type_a True, DeleteType [97], EditTypeInPlace [98] type_a,
      request_refresh IWID_LOCTYPS] \<and>
   apply_local_type (example_ida delete_fails) (Some tuple_a) None
       (empty_replay\<lparr>printed := [Callback_line (Some tuple_a) None]\<rparr>) =
     Raising (Exception ''no such type'')
       \<lparr>calls = [DeleteType [97]], printed = [Callback_line (Some tuple_a) None]\<rparr> \<and>
   printed (apply_pair (example_ida delete_fails) (Some tuple_a, None) empty_replay) =
     [Callback_line (Some tuple_a) None, Failed_line (Exception ''no such type'') (Some tuple_a) None] \<and>
   printed (replay_of (LocalTypesChangedEvent_call (example_ida delete_fails) three_pairs empty_replay)) =
     [Callback_line None (Some tuple_a),
      Callback_line (Some tuple_a) None, Failed_line (Exception ''no such type'') (Some tuple_a) None,
      Callback_line (Some tuple_b) (Some tuple_a)]"
proof -
  have n: "new_local_type tuple_a = Some type_a"
    by (simp add: new_local_type_def tuple_a_def type_a_def)
  have a: "apply_local_type (example_ida delete_fails) (Some tuple_a) None
       (empty_replay\<lparr>printed := [Callback_line (Some tuple_a) None]\<rparr>) =
     Raising (Exception ''no such type'')
       \<lparr>calls = [DeleteType [97]], printed = [Callback_line (Some tuple_a) None]\<rparr>"
    by (simp add: apply_local_type_def host_call_def example_ida_def delete_fails_def
        empty_replay_def tuple_a_def)
  have c: "calls (replay_of (LocalTypesChangedEvent_call (example_ida delete_fails) three_pairs empty_replay)) =
     [InsertType type_a True, DeleteType [97], EditTypeInPlace [98] type_a,
      request_refresh IWID_LOCTYPS]"
    using local_types_replay [of "example_ida delete_fails" three_pairs empty_replay]
    by (simp add: three_pairs_def n empty_replay_def) (simp add: tuple_a_def tuple_b_def)
  have p: "printed (apply_pair (example_ida delete_fails) (Some tuple_a, None) empty_replay) =
     [Callback_line (Some tuple_a) None, Failed_line (Exception ''no such type'') (Some tuple_a) None]"
    using local_types_replay [of "example_ida delete_fails" _ empty_replay "(Some tuple_a, None)"] a
    by (simp add: empty_replay_def)
  have q: "printed (replay_of (LocalTypesChangedEvent_call (example_ida delete_fails) three_pairs empty_replay)) =
     [Callback_line None (Some tuple_a),
      Callback_line (Some tuple_a) None, Failed_line (Exception ''no such type'') (Some tuple_a) None,
      Callback_line (Some tuple_b) (Some tuple_a)]"
    by (simp add: LocalTypesChangedEvent_call_def three_pairs_def apply_pair_def apply_local_type_def
        host_call_def example_ida_def delete_fails_def empty_replay_def tuple_a_def tuple_b_def Let_def)
  show ?thesis using a c p q by simp
qed

section \<open>Properties of the codecs\<close>

subsection \<open>Arithmetic of the UTF-8 bit groups\<close>

lemma dm2: "d1 < 64 \<Longrightarrow> (a * 64 + d1) div 64 = (a::nat) \<and> (a * 64 + d1) mod 64 = d1"
  by simp

lemma div4096: "(c::nat) div 4096 = c div 64 div 64"
  by (simp add: div_mult2_eq [symmetric])

lemma div262144: "(c::nat) div 262144 = c div 64 div 64 div 64"
  by (simp add: div_mult2_eq [symmetric])

lemma nest3: "(q::nat) = q1 * 64 + r1 \<Longrightarrow> c = q * 64 + r0 \<Longrightarrow> q1 * 4096 + r1 * 64 + r0 = c"
  by simp

lemma nest4:
  "(p::nat) = p1 * 64 + r2 \<Longrightarrow> q = p * 64 + r1 \<Longrightarrow> c = q * 64 + r0 \<Longrightarrow>
   p1 * 262144 + r2 * 4096 + r1 * 64 + r0 = c"
  by simp

lemma dm3:
  assumes "d1 < 64" "d2 < 64"
  shows "(a * 4096 + d1 * 64 + d2) div 4096 = (a::nat) \<and>
   (a * 4096 + d1 * 64 + d2) div 64 mod 64 = d1 \<and>
   (a * 4096 + d1 * 64 + d2) mod 64 = d2"
proof -
  define n where "n = a * 4096 + d1 * 64 + d2"
  have e: "n = (a * 64 + d1) * 64 + d2" by (simp add: n_def)
  have 1: "n div 64 = a * 64 + d1" using assms by (simp add: e)
  have 2: "n mod 64 = d2" using assms by (simp only: e mod_mult_self3) simp
  have 3: "n div 4096 = a" using assms by (simp add: div4096 1)
  have 4: "n div 64 mod 64 = d1" using assms by (simp add: 1)
  show ?thesis using 2 3 4 by (simp add: n_def)
qed

lemma dm4:
  assumes "d1 < 64" "d2 < 64" "d3 < 64"
  shows "(a * 262144 + d1 * 4096 + d2 * 64 + d3) div 262144 = (a::nat) \<and>
   (a * 262144 + d1 * 4096 + d2 * 64 + d3) div 4096 mod 64 = d1 \<and>
   (a * 262144 + d1 * 4096 + d2 * 64 + d3) div 64 mod 64 = d2 \<and>
   (a * 262144 + d1 * 4096 + d2 * 64 + d3) mod 64 = d3"
proof -
  define n where "n = a * 262144 + d1 * 4096 + d2 * 64 + d3"
  have e: "n = ((a * 64 + d1) * 64 + d2) * 64 + d3" by (simp add: n_def)
  have 1: "n div 64 = (a * 64 + d1) * 64 + d2" using assms by (simp add: e)
  have 2: "n mod 64 = d3" using assms by (simp only: e mod_mult_self3) simp
  have 3: "n div 64 div 64 = a * 64 + d1" using assms by (simp add: 1)
  have 4: "n div 64 mod 64 = d2" using assms by (simp only: 1 mod_mult_self3) simp
  have 5: "n div 262144 = a" using assms by (simp add: div262144 3)
  have 6: "n div 4096 mod 64 = d1" using assms by (simp add: div4096 3)
  show ?thesis using 2 4 5 6 by (simp add: n_def)
qed

lemma md3: "(c::nat) div 4096 * 4096 + c div 64 mod 64 * 64 + c mod 64 = c"
  unfolding div4096 by (rule nest3 [of "c div 64"]) simp_all

lemma md4: "(c::nat) div 262144 * 262144 + c div 4096 mod 64 * 4096 + c div 64 mod 64 * 64 + c mod 64 = c"
  unfolding div262144 div4096 by (rule nest4 [of "c div 64 div 64" _ _ "c div 64"]) simp_all

subsection \<open>UTF-8: encoding and decoding are inverse\<close>

lemma of_char_char_of_nat: "n < 256 \<Longrightarrow> of_char (char_of n) = (n::nat)"
  by simp

lemma is_cont_char_of: "d < 64 \<Longrightarrow> is_cont (char_of (0x80 + d :: nat)) \<and> cont_bits (char_of (0x80 + d :: nat)) = d"
  by (simp add: is_cont_def cont_bits_def)

lemma cont_bits_less: "is_cont b \<Longrightarrow> cont_bits b < 64"
  unfolding is_cont_def cont_bits_def by linarith

lemma cont_bits_char: "is_cont b \<Longrightarrow> char_of (0x80 + cont_bits b) = b"
proof -
  assume "is_cont b"
  then have "0x80 + cont_bits b = (of_char b :: nat)"
    unfolding is_cont_def cont_bits_def by linarith
  then show ?thesis by simp
qed

lemma utf8_decode_char:
  assumes "utf8_char c = Some bs"
  shows "utf8_decode (bs @ rest) = map_option (\<lambda>u. c # u) (utf8_decode rest)"
proof -
  consider (a) "c < 0x80" | (b) "0x80 \<le> c" "c < 0x800"
    | (c) "0x800 \<le> c" "c < 0x10000" "\<not> is_surrogate c"
    | (d) "0x10000 \<le> c" "c < 0x110000"
    using assms by (cases "c < 0x80"; cases "c < 0x800"; cases "c < 0x10000"; cases "c < 0x110000")
      (auto simp: utf8_char_def is_surrogate_def split: if_splits)
  then show ?thesis
  proof cases
    case a
    then have "bs = [char_of c]" using assms by (simp add: utf8_char_def)
    then show ?thesis using a by simp
  next
    case b
    define a where "a = c div 64"
    define d where "d = c mod 64"
    have bs: "bs = [char_of (0xC0 + a), char_of (0x80 + d)]"
      using assms b by (simp add: utf8_char_def a_def d_def)
    have ra: "2 \<le> a" "a < 32" using b by (simp_all add: a_def)
    have rd: "d < 64" by (simp add: d_def)
    have c: "a * 64 + d = c" by (simp add: a_def d_def)
    have n0: "of_char (char_of (0xC0 + a)) = 0xC0 + a" using ra by simp
    show ?thesis
      using ra is_cont_char_of [OF rd] c by (simp add: bs n0)
  next
    case c
    define a where "a = c div 4096"
    define d1 where "d1 = c div 64 mod 64"
    define d2 where "d2 = c mod 64"
    have bs: "bs = [char_of (0xE0 + a), char_of (0x80 + d1), char_of (0x80 + d2)]"
      using assms c by (simp add: utf8_char_def a_def d1_def d2_def)
    have ra: "a < 16" using c by (simp add: a_def)
    have rd: "d1 < 64" "d2 < 64" by (simp_all add: d1_def d2_def)
    have v: "a * 4096 + d1 * 64 + d2 = c" unfolding a_def d1_def d2_def by (rule md3)
    have n0: "of_char (char_of (0xE0 + a)) = 0xE0 + a" using ra by simp
    show ?thesis
      using ra is_cont_char_of [OF rd(1)] is_cont_char_of [OF rd(2)] v c by (simp add: bs n0)
  next
    case d
    define a where "a = c div 262144"
    define d1 where "d1 = c div 4096 mod 64"
    define d2 where "d2 = c div 64 mod 64"
    define d3 where "d3 = c mod 64"
    have ns: "\<not> is_surrogate c" using d by (simp add: is_surrogate_def)
    have bs: "bs = [char_of (0xF0 + a), char_of (0x80 + d1), char_of (0x80 + d2), char_of (0x80 + d3)]"
      using assms d ns by (simp add: utf8_char_def a_def d1_def d2_def d3_def)
    have ra: "a < 5" using d by (simp add: a_def)
    have rd: "d1 < 64" "d2 < 64" "d3 < 64" by (simp_all add: d1_def d2_def d3_def)
    have v: "a * 262144 + d1 * 4096 + d2 * 64 + d3 = c" unfolding a_def d1_def d2_def d3_def by (rule md4)
    have n0: "of_char (char_of (0xF0 + a)) = 0xF0 + a" using ra by simp
    show ?thesis
      using ra is_cont_char_of [OF rd(1)] is_cont_char_of [OF rd(2)] is_cont_char_of [OF rd(3)] v d
      by (simp add: bs n0)
  qed
qed

lemma utf8_encode_decode: "utf8_encode u = Some b \<Longrightarrow> utf8_decode b = Some u"
proof (induction u arbitrary: b)
  case Nil
  then show ?case by simp
next
  case (Cons c cs)
  then obtain bs r where bs: "utf8_char c = Some bs" and r: "utf8_encode cs = Some r" and b: "b = bs @ r"
    by (auto split: option.splits)
  have "utf8_decode r = Some cs" using Cons.IH [OF r] .
  then show ?case using utf8_decode_char [OF bs, of r] b by simp
qed

lemma utf8_char_1: "(of_char b0 :: nat) < 0x80 \<Longrightarrow> utf8_char (of_char b0) = Some [b0]"
  by (simp add: utf8_char_def)

lemma utf8_char_2:
  assumes "0xC2 \<le> (of_char b0 :: nat)" "(of_char b0 :: nat) < 0xE0" "is_cont b1"
  shows "utf8_char ((of_char b0 - 0xC0) * 64 + cont_bits b1) = Some [b0, b1]"
proof -
  define a where "a = (of_char b0 :: nat) - 0xC0"
  have ra: "2 \<le> a" "a < 32" using assms by (simp_all add: a_def)
  have b0: "0xC0 + a = (of_char b0 :: nat)" using assms by (simp add: a_def)
  have d: "cont_bits b1 < 64" using assms by (simp add: cont_bits_less)
  have dm: "(a * 64 + cont_bits b1) div 64 = a" "(a * 64 + cont_bits b1) mod 64 = cont_bits b1"
    using dm2 [OF d, of a] by simp_all
  have lo: "\<not> a * 64 + cont_bits b1 < 0x80" using ra by simp
  have hi: "a * 64 + cont_bits b1 < 0x800" using ra d by simp
  have "utf8_char (a * 64 + cont_bits b1) = Some [char_of (0xC0 + a), char_of (0x80 + cont_bits b1)]"
    using lo hi by (simp only: utf8_char_def dm if_True if_False)
  then show ?thesis
    unfolding b0 cont_bits_char [OF assms(3)] by (simp only: a_def char_of_char)
qed

lemma utf8_char_3:
  assumes "0xE0 \<le> (of_char b0 :: nat)" "(of_char b0 :: nat) < 0xF0" "is_cont b1" "is_cont b2"
    "0x800 \<le> (of_char b0 - 0xE0) * 4096 + cont_bits b1 * 64 + cont_bits b2"
    "\<not> is_surrogate ((of_char b0 - 0xE0) * 4096 + cont_bits b1 * 64 + cont_bits b2)"
  shows "utf8_char ((of_char b0 - 0xE0) * 4096 + cont_bits b1 * 64 + cont_bits b2) = Some [b0, b1, b2]"
proof -
  define a where "a = (of_char b0 :: nat) - 0xE0"
  define cp where "cp = a * 4096 + cont_bits b1 * 64 + cont_bits b2"
  have ra: "a < 16" using assms by (simp add: a_def)
  have b0: "0xE0 + a = (of_char b0 :: nat)" using assms by (simp add: a_def)
  have d: "cont_bits b1 < 64" "cont_bits b2 < 64" using assms by (simp_all add: cont_bits_less)
  have dm: "cp div 4096 = a" "cp div 64 mod 64 = cont_bits b1" "cp mod 64 = cont_bits b2"
    using dm3 [OF d, of a] by (simp_all add: cp_def)
  have lo: "0x800 \<le> cp" using assms by (simp add: cp_def a_def)
  have ns: "\<not> is_surrogate cp" using assms by (simp add: cp_def a_def)
  have hi: "cp < 0x10000" using ra d by (simp add: cp_def)
  have n1: "\<not> cp < 0x80" "\<not> cp < 0x800" using lo by simp_all
  have "utf8_char cp = Some [char_of (0xE0 + a), char_of (0x80 + cont_bits b1), char_of (0x80 + cont_bits b2)]"
    using n1 hi ns by (simp only: utf8_char_def dm if_True if_False)
  then show ?thesis
    unfolding b0 cont_bits_char [OF assms(3)] cont_bits_char [OF assms(4)]
    by (simp only: cp_def a_def char_of_char)
qed

lemma utf8_char_4:
  assumes "0xF0 \<le> (of_char b0 :: nat)" "(of_char b0 :: nat) < 0xF5" "is_cont b1" "is_cont b2" "is_cont b3"
    "0x10000 \<le> (of_char b0 - 0xF0) * 262144 + cont_bits b1 * 4096 + cont_bits b2 * 64 + cont_bits b3"
    "(of_char b0 - 0xF0) * 262144 + cont_bits b1 * 4096 + cont_bits b2 * 64 + cont_bits b3 < 0x110000"
  shows "utf8_char ((of_char b0 - 0xF0) * 262144 + cont_bits b1 * 4096 + cont_bits b2 * 64 + cont_bits b3)
     = Some [b0, b1, b2, b3]"
proof -
  define a where "a = (of_char b0 :: nat) - 0xF0"
  define cp where "cp = a * 262144 + cont_bits b1 * 4096 + cont_bits b2 * 64 + cont_bits b3"
  have b0: "0xF0 + a = (of_char b0 :: nat)" using assms by (simp add: a_def)
  have d: "cont_bits b1 < 64" "cont_bits b2 < 64" "cont_bits b3 < 64"
    using assms by (simp_all add: cont_bits_less)
  have dm: "cp div 262144 = a" "cp div 4096 mod 64 = cont_bits b1" "cp div 64 mod 64 = cont_bits b2"
    "cp mod 64 = cont_bits b3"
    using dm4 [OF d, of a] by (simp_all add: cp_def)
  have lo: "0x10000 \<le> cp" using assms by (simp add: cp_def a_def)
  have hi: "cp < 0x110000" using assms by (simp add: cp_def a_def)
  have ns: "\<not> is_surrogate cp" using lo by (simp add: is_surrogate_def)
  have n1: "\<not> cp < 0x80" "\<not> cp < 0x800" "\<not> cp < 0x10000" using lo by simp_all
  have "utf8_char cp = Some [char_of (0xF0 + a), char_of (0x80 + cont_bits b1),
      char_of (0x80 + cont_bits b2), char_of (0x80 + cont_bits b3)]"
    using n1 hi ns by (simp only: utf8_char_def dm if_True if_False)
  then show ?thesis
    unfolding b0 cont_bits_char [OF assms(3)] cont_bits_char [OF assms(4)] cont_bits_char [OF assms(5)]
    by (simp only: cp_def a_def char_of_char)
qed

lemma utf8_decode_encode: "utf8_decode b = Some u \<Longrightarrow> utf8_encode u = Some b"
proof (induction b arbitrary: u rule: utf8_decode.induct)
  case 1
  then show ?case by simp
next
  case (2 b0 bs)
  let ?n = "of_char b0 :: nat"
  consider (a) "?n < 0x80" | (b) "0xC2 \<le> ?n" "?n < 0xE0" | (c) "0xE0 \<le> ?n" "?n < 0xF0"
    | (d) "0xF0 \<le> ?n" "?n < 0xF5"
    using "2.prems" by (cases "?n < 0x80"; cases "?n < 0xC2"; cases "?n < 0xE0"; cases "?n < 0xF0";
        cases "?n < 0xF5") (simp_all split: if_splits)
  then show ?case
  proof cases
    case a
    then obtain r where r: "utf8_decode bs = Some r" and u: "u = ?n # r"
      using "2.prems" by auto
    have "utf8_encode r = Some bs" using "2.IH"(1) [OF a r] .
    then show ?thesis using a by (simp add: u utf8_char_1)
  next
    case b
    then have nb: "\<not> ?n < 0x80" "\<not> ?n < 0xC2" by simp_all
    from "2.prems" b nb obtain b1 rest r where bs: "bs = b1 # rest" and c1: "is_cont b1"
      and r: "utf8_decode rest = Some r" and u: "u = ((?n - 0xC0) * 64 + cont_bits b1) # r"
      by (auto split: list.splits if_splits)
    have "utf8_encode r = Some rest" using "2.IH"(2) [OF nb b(2) bs c1 r] .
    then show ?thesis using utf8_char_2 [OF b c1] by (simp add: u bs)
  next
    case c
    then have nb: "\<not> ?n < 0x80" "\<not> ?n < 0xC2" "\<not> ?n < 0xE0" by simp_all
    from "2.prems" c nb obtain b1 b2 rest r where bs: "bs = b1 # b2 # rest"
      and c1: "is_cont b1" and c2: "is_cont b2"
      and lo: "0x800 \<le> (?n - 0xE0) * 4096 + cont_bits b1 * 64 + cont_bits b2"
      and ns: "\<not> is_surrogate ((?n - 0xE0) * 4096 + cont_bits b1 * 64 + cont_bits b2)"
      and r: "utf8_decode rest = Some r"
      and u: "u = ((?n - 0xE0) * 4096 + cont_bits b1 * 64 + cont_bits b2) # r"
      by (auto split: list.splits if_splits)
    have "utf8_encode r = Some rest"
      using "2.IH"(3) [OF nb c(2) bs] c1 c2 lo ns r by simp
    then show ?thesis using utf8_char_3 [OF c c1 c2 lo ns] by (simp add: u bs)
  next
    case d
    then have nb: "\<not> ?n < 0x80" "\<not> ?n < 0xC2" "\<not> ?n < 0xE0" "\<not> ?n < 0xF0" by simp_all
    from "2.prems" d nb obtain b1 b2 b3 rest r where bs: "bs = b1 # b2 # b3 # rest"
      and c1: "is_cont b1" and c2: "is_cont b2" and c3: "is_cont b3"
      and lo: "0x10000 \<le> (?n - 0xF0) * 262144 + cont_bits b1 * 4096 + cont_bits b2 * 64 + cont_bits b3"
      and hi: "(?n - 0xF0) * 262144 + cont_bits b1 * 4096 + cont_bits b2 * 64 + cont_bits b3 < 0x110000"
      and r: "utf8_decode rest = Some r"
      and u: "u = ((?n - 0xF0) * 262144 + cont_bits b1 * 4096 + cont_bits b2 * 64 + cont_bits b3) # r"
      by (auto split: list.splits if_splits)
    have "utf8_encode r = Some rest"
      using "2.IH"(4) [OF nb d(2) bs] c1 c2 c3 lo hi r by simp
    then show ?thesis using utf8_char_4 [OF d c1 c2 c3 lo hi] by (simp add: u bs)
  qed
qed

subsection \<open>The round trips\<close>

lemma utf8_char_None: "utf8_char c = None \<longleftrightarrow> \<not> (c < 0x110000 \<and> \<not> is_surrogate c)"
  by (auto simp: utf8_char_def is_surrogate_def)

lemma utf8_encode_None:
  "utf8_encode s = None \<longleftrightarrow> \<not> (\<forall>c \<in> set s. c < 0x110000 \<and> \<not> is_surrogate c)"
proof (induction s)
  case Nil
  then show ?case by simp
next
  case (Cons c cs)
  show ?case
  proof (cases "utf8_char c")
    case None
    then show ?thesis using utf8_char_None [of c] by simp
  next
    case (Some bs)
    then have "c < 0x110000 \<and> \<not> is_surrogate c" using utf8_char_None [of c] by simp
    then show ?thesis using Some Cons.IH by simp
  qed
qed

lemma rue_decode_plain: "\<not> has_escape b \<Longrightarrow> rue_decode b = Some (map of_char b)"
proof (induction b rule: has_escape.induct)
  case 1
  then show ?case by simp
next
  case (2 c)
  then show ?case by simp
next
  case (3 c d cs)
  show ?case
  proof (cases "c \<noteq> backslash")
    case True
    then have "\<not> has_escape (d # cs)" using "3.prems" by simp
    then have "rue_decode (d # cs) = Some (map of_char (d # cs))" using "3.IH"(1) True by simp
    then show ?thesis using True by simp
  next
    case False
    then have d: "d \<noteq> CHR ''u''" "d \<noteq> CHR ''U''" and n: "\<not> has_escape cs"
      using "3.prems" by (auto split: if_splits)
    have "rue_decode cs = Some (map of_char cs)" using "3.IH"(2) False d n by simp
    then show ?thesis using False d by simp
  qed
qed

lemma rue_encode_bytes: "rue_encode (map of_char b) = b"
proof (induction b)
  case Nil
  then show ?case by (simp add: rue_encode_def)
next
  case (Cons c cs)
  have "(of_char c :: nat) < 0x100" by simp
  then have "rue_char (of_char c) = [c]" by (simp add: rue_char_def)
  then show ?case using Cons by (simp add: rue_encode_def)
qed

text \<open>
  Claim C8, as the code has it. For the pair \<^verbatim>\<open>encode\<close>/\<^verbatim>\<open>decode\<close>: every byte string
  that the strict UTF-8 decoder accepts is given back by \<^verbatim>\<open>encode(decode(b))\<close>; and
  \<^verbatim>\<open>decode(encode(s))\<close> gives back a string \<open>s\<close> exactly when \<open>s\<close> holds no surrogate code
  point (on a surrogate the encoder raises). For the pair
  \<^verbatim>\<open>encode_bytes\<close>/\<^verbatim>\<open>decode_bytes\<close>: a byte string in which the decoder meets no
  escape (a backslash with \<^verbatim>\<open>u\<close> or \<^verbatim>\<open>U\<close>) is given back by \<^verbatim>\<open>encode_bytes(decode_bytes(b))\<close>.
\<close>

theorem codec_round_trip:
  "(utf8_decode b \<noteq> None \<longrightarrow> after encode (decode (Bytes b)) = Inr (Bytes b)) \<and>
   ((after decode (encode (Str s)) = Inr (Str s)) =
      (\<forall>c \<in> set s. c < 0x110000 \<and> \<not> is_surrogate c)) \<and>
   (\<not> has_escape b \<longrightarrow> after encode_bytes (decode_bytes (Bytes b)) = Inr (Bytes b))"
proof (intro conjI impI)
  assume "utf8_decode b \<noteq> None"
  then obtain u where u: "utf8_decode b = Some u" by auto
  then have "utf8_encode u = Some b" by (rule utf8_decode_encode)
  then show "after encode (decode (Bytes b)) = Inr (Bytes b)"
    using u by (simp add: after_def encode_def decode_def)
next
  show "(after decode (encode (Str s)) = Inr (Str s)) =
      (\<forall>c \<in> set s. c < 0x110000 \<and> \<not> is_surrogate c)"
  proof (cases "utf8_encode s")
    case None
    then show ?thesis using utf8_encode_None [of s] by (simp add: after_def encode_def)
  next
    case (Some b)
    then have "utf8_decode b = Some s" by (rule utf8_encode_decode)
    then show ?thesis
      using Some utf8_encode_None [of s] by (simp add: after_def encode_def decode_def)
  qed
next
  assume "\<not> has_escape b"
  then have "rue_decode b = Some (map of_char b)" by (rule rue_decode_plain)
  then show "after encode_bytes (decode_bytes (Bytes b)) = Inr (Bytes b)"
    by (simp add: after_def encode_bytes_def decode_bytes_def rue_encode_bytes)
qed

lemma hex_val_0: "hex_val CHR ''0'' = Some 0" by (simp add: hex_val_def)
lemma hex_val_4: "hex_val CHR ''4'' = Some 4" by (simp add: hex_val_def)
lemma hex_val_1: "hex_val CHR ''1'' = Some 1" by (simp add: hex_val_def)

text \<open>
  Claim C8 as stated fails twice: the string of the one surrogate \<open>0xD800\<close> cannot be
  encoded, and the six bytes of the escape (a backslash and \<^verbatim>\<open>u0041\<close>) come back as the one byte \<^verbatim>\<open>A\<close>.
\<close>

theorem codec_round_trip_fails:
  "encode (Str [0xD800]) = Inl UnicodeError \<and>
   after decode (encode (Str [0xD800])) \<noteq> Inr (Str [0xD800]) \<and>
   after encode_bytes (decode_bytes (Bytes (backslash # ''u0041''))) = Inr (Bytes ''A'') \<and>
   after encode_bytes (decode_bytes (Bytes (backslash # ''u0041''))) \<noteq>
     Inr (Bytes (backslash # ''u0041''))"
proof -
  have e: "encode (Str [0xD800]) = Inl UnicodeError"
    by (simp add: encode_def utf8_char_def is_surrogate_def)
  have a: "char_of (65 :: nat) = CHR ''A''" by (simp add: char_of_def bit_Suc_0_iff)
  have r: "after encode_bytes (decode_bytes (Bytes (backslash # ''u0041''))) = Inr (Bytes ''A'')"
    by (simp add: after_def decode_bytes_def encode_bytes_def read_escape_def hex_val_0 hex_val_4
        hex_val_1 rue_encode_def rue_char_def a)
  show ?thesis using e r by (simp add: after_def)
qed

text \<open>
  The two bytes of \<^verbatim>\<open>U+00E9\<close>; the string of \<^verbatim>\<open>U+00E9\<close> and \<^verbatim>\<open>U+1234\<close>; the bytes
  backslash, \<^verbatim>\<open>x\<close>, \<^verbatim>\<open>4\<close>, \<^verbatim>\<open>1\<close>.
\<close>

theorem codec_round_trip_witness:
  "utf8_decode [CHR 0xC3, CHR 0xA9] = Some [0xE9] \<and>
   after encode (decode (Bytes [CHR 0xC3, CHR 0xA9])) = Inr (Bytes [CHR 0xC3, CHR 0xA9]) \<and>
   (0xE9 :: nat) < 0x110000 \<and> \<not> is_surrogate 0xE9 \<and>
   (0x1234 :: nat) < 0x110000 \<and> \<not> is_surrogate 0x1234 \<and>
   after decode (encode (Str [0xE9, 0x1234])) = Inr (Str [0xE9, 0x1234]) \<and>
   \<not> has_escape (backslash # ''x41'') \<and>
   after encode_bytes (decode_bytes (Bytes (backslash # ''x41''))) = Inr (Bytes (backslash # ''x41''))"
proof -
  have d: "utf8_decode [CHR 0xC3, CHR 0xA9] = Some [0xE9]"
    by (simp add: is_cont_def cont_bits_def)
  have s: "\<not> is_surrogate 0xE9" "\<not> is_surrogate 0x1234"
    by (simp_all add: is_surrogate_def)
  have h: "\<not> has_escape (backslash # ''x41'')"
    by simp
  have a: "after encode (decode (Bytes [CHR 0xC3, CHR 0xA9])) = Inr (Bytes [CHR 0xC3, CHR 0xA9])"
    using codec_round_trip [of "[CHR 0xC3, CHR 0xA9]"] d by simp
  have b: "after decode (encode (Str [0xE9, 0x1234])) = Inr (Str [0xE9, 0x1234])"
    using codec_round_trip [of _ "[0xE9, 0x1234]"] s by simp
  have c: "after encode_bytes (decode_bytes (Bytes (backslash # ''x41''))) = Inr (Bytes (backslash # ''x41''))"
    using codec_round_trip [of "backslash # ''x41''"] h by blast
  show ?thesis using d s h a b c by simp
qed

end
